theory Spec2Isabelle
  imports Main "HOL-Library.Word" "HOL-Library.Sublist" "HOL-Library.Monad_Syntax"
begin

section \<open>JavaScript strings\<close>

text \<open>
  A JavaScript string is a sequence of UTF-16 code units: \<open>length\<close>, \<open>substring\<close>
  and \<open>trim\<close> all count and cut code units.  ASCII literals of the source are written
  with \<open>str\<close>; text outside ASCII is given by its code units.
\<close>

type_synonym jsstring = "16 word list"

definition str :: "string \<Rightarrow> jsstring" where
  "str s = map of_char s"

text \<open>
  \<open>String.prototype.trim\<close> removes leading and trailing code units that are WhiteSpace or
  LineTerminator in ECMAScript: TAB, LF, VT, FF, CR, SP, NBSP, U+1680, U+2000..U+200A,
  U+2028, U+2029, U+202F, U+205F, U+3000 and U+FEFF.
\<close>

definition isWhiteSpace :: "16 word \<Rightarrow> bool" where
  "isWhiteSpace c \<longleftrightarrow>
     c = 0x0009 \<or> c = 0x000A \<or> c = 0x000B \<or> c = 0x000C \<or> c = 0x000D \<or> c = 0x0020 \<or>
     c = 0x00A0 \<or> c = 0x1680 \<or> (0x2000 \<le> c \<and> c \<le> 0x200A) \<or> c = 0x2028 \<or>
     c = 0x2029 \<or> c = 0x202F \<or> c = 0x205F \<or> c = 0x3000 \<or> c = 0xFEFF"

definition trim :: "jsstring \<Rightarrow> jsstring" where
  "trim s = rev (dropWhile isWhiteSpace (rev (dropWhile isWhiteSpace s)))"

text \<open>
  Truthiness of an optional string argument (\<open>imageBase64?: string\<close>): \<open>undefined\<close>
  and the empty string are falsy.
\<close>

fun truthy :: "jsstring option \<Rightarrow> bool" where
  "truthy None = False"
| "truthy (Some s) = (s \<noteq> [])"

text \<open>
  \<open>Number.prototype.toString\<close> on an integer below \<open>10^21\<close> in magnitude: the decimal
  digits, with a leading minus sign for a negative number.
\<close>

fun digit :: "nat \<Rightarrow> 16 word" where
  "digit n = 0x30 + of_nat (n mod 10)"

declare digit.simps [simp del]

fun digits :: "nat \<Rightarrow> jsstring" where
  "digits n = (if n < 10 then [digit n] else digits (n div 10) @ [digit (n mod 10)])"

declare digits.simps [simp del]

definition Number_toString :: "int \<Rightarrow> jsstring" where
  "Number_toString i = (if i < 0 then 0x2D # digits (nat (- i)) else digits (nat i))"

section \<open>Title derivation (ChatPage.tsx)\<close>

definition generateTitle :: "jsstring \<Rightarrow> jsstring" where
  "generateTitle firstMessage =
     (let maxLength = 30 in
      if length firstMessage \<le> maxLength then firstMessage
      else take maxLength firstMessage @ str ''...'')"

section \<open>Dates and their JSON form\<close>

text \<open>
  A \<open>Date\<close> object holds a time value: an integral number of milliseconds since
  1970-01-01T00:00:00Z of magnitude at most \<open>8.64 * 10^15\<close>, or NaN (an invalid date).
\<close>

datatype Date = Date int | InvalidDate

definition maxTime :: int where
  "maxTime = 8640000000000000"

definition msPerDay :: int where
  "msPerDay = 86400000"

definition Day :: "int \<Rightarrow> int" where
  "Day tv = tv div msPerDay"

definition TimeWithinDay :: "int \<Rightarrow> int" where
  "TimeWithinDay tv = tv mod msPerDay"

text \<open>
  The calendar functions belong to the host runtime, not to the repository
  (\<open>Date.prototype.toISOString\<close>, \<open>Date.parse\<close>, \<open>new Date\<close>); they are modelled
  from ECMAScript.  The persisted format is the one \<open>JSON.stringify\<close> writes for a
  \<open>Date\<close>: \<open>YYYY-MM-DDTHH:mm:ss.sssZ\<close>, with a sign and six digits for a year outside
  0..9999.  \<open>civil\<close> splits a day number into proleptic Gregorian (year, month 1..12,
  day of month) by 400-, 100-, 4- and 1-year cycles counted from 1 March of year 0.
\<close>

definition civil :: "int \<Rightarrow> int \<times> int \<times> int" where
  "civil d =
     (let z = d + 719468;
          n400 = z div 146097; r = z mod 146097;
          n100 = min 3 (r div 36524); r1 = r - 36524 * n100;
          n4 = r1 div 1461; r2 = r1 mod 1461;
          n1 = min 3 (r2 div 365); doy = r2 - 365 * n1;
          y = 400 * n400 + 100 * n100 + 4 * n4 + n1;
          mp = (5 * doy + 2) div 153;
          dom = doy - (153 * mp + 2) div 5 + 1;
          mon = (if mp < 10 then mp + 3 else mp - 9)
      in (if mon \<le> 2 then y + 1 else y, mon, dom))"

definition YearFromTime :: "int \<Rightarrow> int" where
  "YearFromTime tv = fst (civil (Day tv))"

definition MonthFromTime :: "int \<Rightarrow> int" where
  "MonthFromTime tv = fst (snd (civil (Day tv))) - 1"

definition DateFromTime :: "int \<Rightarrow> int" where
  "DateFromTime tv = snd (snd (civil (Day tv)))"

definition HourFromTime :: "int \<Rightarrow> int" where
  "HourFromTime tv = TimeWithinDay tv div 3600000"

definition MinFromTime :: "int \<Rightarrow> int" where
  "MinFromTime tv = TimeWithinDay tv div 60000 mod 60"

definition SecFromTime :: "int \<Rightarrow> int" where
  "SecFromTime tv = TimeWithinDay tv div 1000 mod 60"

definition msFromTime :: "int \<Rightarrow> int" where
  "msFromTime tv = TimeWithinDay tv mod 1000"

text \<open>\<open>padStart k n\<close>: the last \<open>k\<close> decimal digits of \<open>n\<close>, zero-padded.\<close>

fun padStart :: "nat \<Rightarrow> nat \<Rightarrow> jsstring" where
  "padStart 0 n = []"
| "padStart (Suc k) n = padStart k (n div 10) @ [digit n]"

definition yearString :: "int \<Rightarrow> jsstring" where
  "yearString y =
     (if 0 \<le> y \<and> y \<le> 9999 then padStart 4 (nat y)
      else (if y < 0 then 0x2D else 0x2B) # padStart 6 (nat \<bar>y\<bar>))"

definition toISOString :: "int \<Rightarrow> jsstring" where
  "toISOString tv =
     yearString (YearFromTime tv) @ str ''-'' @
     padStart 2 (nat (MonthFromTime tv + 1)) @ str ''-'' @
     padStart 2 (nat (DateFromTime tv)) @ str ''T'' @
     padStart 2 (nat (HourFromTime tv)) @ str '':'' @
     padStart 2 (nat (MinFromTime tv)) @ str '':'' @
     padStart 2 (nat (SecFromTime tv)) @ str ''.'' @
     padStart 3 (nat (msFromTime tv)) @ str ''Z''"

text \<open>\<open>Date.prototype.toJSON\<close>: the ISO string, or \<open>null\<close> for an invalid date.\<close>

fun toJSON :: "Date \<Rightarrow> jsstring option" where
  "toJSON (Date tv) = Some (toISOString tv)"
| "toJSON InvalidDate = None"

text \<open>
  The reader of the same format.  \<open>DayFromYear\<close>, \<open>InLeapYear\<close>, \<open>MakeDay\<close>,
  \<open>MakeTime\<close>, \<open>MakeDate\<close> and \<open>TimeClip\<close> are the abstract operations of
  ECMAScript.  Only the complete date-time form with milliseconds and \<open>Z\<close> is read;
  any other text counts as unparsable.
\<close>

definition DayFromYear :: "int \<Rightarrow> int" where
  "DayFromYear y = 365 * (y - 1970) + (y - 1969) div 4 - (y - 1901) div 100 + (y - 1601) div 400"

definition InLeapYear :: "int \<Rightarrow> bool" where
  "InLeapYear y \<longleftrightarrow> y mod 4 = 0 \<and> (y mod 100 \<noteq> 0 \<or> y mod 400 = 0)"

definition daysBeforeMonth :: "int \<Rightarrow> int \<Rightarrow> int" where
  "daysBeforeMonth y m =
     [0, 31, 59, 90, 120, 151, 181, 212, 243, 273, 304, 334] ! nat m +
     (if 2 \<le> m \<and> InLeapYear y then 1 else 0)"

definition MakeDay :: "int \<Rightarrow> int \<Rightarrow> int \<Rightarrow> int" where
  "MakeDay y m dt = DayFromYear y + daysBeforeMonth y m + dt - 1"

definition MakeTime :: "int \<Rightarrow> int \<Rightarrow> int \<Rightarrow> int \<Rightarrow> int" where
  "MakeTime h mi s ms = h * 3600000 + mi * 60000 + s * 1000 + ms"

definition MakeDate :: "int \<Rightarrow> int \<Rightarrow> int" where
  "MakeDate dy tm = dy * msPerDay + tm"

definition TimeClip :: "int \<Rightarrow> int option" where
  "TimeClip tv = (if \<bar>tv\<bar> > maxTime then None else Some tv)"

definition isDigit :: "16 word \<Rightarrow> bool" where
  "isDigit c \<longleftrightarrow> 0x30 \<le> c \<and> c \<le> 0x39"

definition digitsValue :: "jsstring \<Rightarrow> nat" where
  "digitsValue s = foldl (\<lambda>a c. 10 * a + unat (c - 0x30)) 0 s"

definition takeNumber :: "nat \<Rightarrow> jsstring \<Rightarrow> (nat \<times> jsstring) option" where
  "takeNumber k s =
     (if k \<le> length s \<and> list_all isDigit (take k s)
      then Some (digitsValue (take k s), drop k s) else None)"

fun expect :: "16 word \<Rightarrow> jsstring \<Rightarrow> jsstring option" where
  "expect c [] = None"
| "expect c (x # xs) = (if x = c then Some xs else None)"

definition takeYear :: "jsstring \<Rightarrow> (int \<times> jsstring) option" where
  "takeYear s =
     (case s of
        [] \<Rightarrow> None
      | c # rest \<Rightarrow>
          if c = 0x2B then map_option (\<lambda>(n, r). (int n, r)) (takeNumber 6 rest)
          else if c = 0x2D then
            (case takeNumber 6 rest of
               None \<Rightarrow> None
             | Some (n, r) \<Rightarrow> if n = 0 then None else Some (- int n, r))
          else map_option (\<lambda>(n, r). (int n, r)) (takeNumber 4 s))"

definition Date_parse :: "jsstring \<Rightarrow> int option" where
  "Date_parse s = do {
     (y, s1) \<leftarrow> takeYear s;
     s2 \<leftarrow> expect 0x2D s1;
     (mo, s3) \<leftarrow> takeNumber 2 s2;
     s4 \<leftarrow> expect 0x2D s3;
     (dt, s5) \<leftarrow> takeNumber 2 s4;
     s6 \<leftarrow> expect 0x54 s5;
     (h, s7) \<leftarrow> takeNumber 2 s6;
     s8 \<leftarrow> expect 0x3A s7;
     (mi, s9) \<leftarrow> takeNumber 2 s8;
     s10 \<leftarrow> expect 0x3A s9;
     (sec, s11) \<leftarrow> takeNumber 2 s10;
     s12 \<leftarrow> expect 0x2E s11;
     (ms, s13) \<leftarrow> takeNumber 3 s12;
     s14 \<leftarrow> expect 0x5A s13;
     if s14 = [] \<and> 1 \<le> mo \<and> mo \<le> 12 \<and> 1 \<le> dt \<and> dt \<le> 31 \<and>
        (h \<le> 23 \<and> mi \<le> 59 \<and> sec \<le> 59 \<or> h = 24 \<and> mi = 0 \<and> sec = 0 \<and> ms = 0)
     then TimeClip (MakeDate (MakeDay y (int mo - 1) (int dt))
                      (MakeTime (int h) (int mi) (int sec) (int ms)))
     else None
   }"

text \<open>
  \<open>new Date(v)\<close> for a value read back from JSON: a string is parsed, \<open>null\<close>
  converts to the number 0.
\<close>

fun new_Date :: "jsstring option \<Rightarrow> Date" where
  "new_Date None = Date 0"
| "new_Date (Some s) = (case Date_parse s of None \<Rightarrow> InvalidDate | Some tv \<Rightarrow> Date tv)"

section \<open>Data model (types)\<close>

text \<open>
  \<open>Message\<close> and \<open>ChatSession\<close> of the type declarations.  The field \<open>id\<close> of
  the source is \<open>mid\<close> in a message and \<open>sid\<close> in a session; an optional field is
  an \<open>option\<close>, \<open>None\<close> standing for \<open>undefined\<close> or absent.
\<close>

datatype Role = User | Assistant

record Message =
  mid :: jsstring
  role :: Role
  content :: jsstring
  timestamp :: Date
  imageUrl :: "jsstring option"
  audioUrl :: "jsstring option"

record ChatSession =
  sid :: jsstring
  title :: jsstring
  messages :: "Message list"
  createdAt :: Date
  updatedAt :: Date

datatype Language = En | Hi | Ta | Te | Kn | Ml | Bn | Mr | Gu | Pa

record ChatRequest =
  text_req :: jsstring
  image_base64 :: "jsstring option"
  audio_file :: "jsstring option"
  session_id :: jsstring
  language_req :: Language

section \<open>Persistence (chatService.ts)\<close>

text \<open>
  What \<open>JSON.stringify\<close> writes for a session and what \<open>JSON.parse\<close> reads back: the
  same fields, except that a \<open>Date\<close> has become its \<open>toJSON\<close> value (a string, or
  \<open>null\<close>) and an \<open>undefined\<close> field is left out.
\<close>

record MessageJSON =
  mid_json :: jsstring
  role_json :: Role
  content_json :: jsstring
  timestamp_json :: "jsstring option"
  imageUrl_json :: "jsstring option"
  audioUrl_json :: "jsstring option"

record ChatSessionJSON =
  sid_json :: jsstring
  title_json :: jsstring
  messages_json :: "MessageJSON list"
  createdAt_json :: "jsstring option"
  updatedAt_json :: "jsstring option"

text \<open>
  The item \<open>"earthworm-chat-history"\<close> of \<open>localStorage\<close>, represented by what reading
  it gives: no item (or the empty text), a text on which \<open>JSON.parse\<close> or the mapping
  over the parsed value throws, or the text of an array of sessions.
\<close>

datatype Storage = NoItem | Unreadable | Item "ChatSessionJSON list"

text \<open>
  \<open>localStorage.setItem\<close> throws \<open>QuotaExceededError\<close> when the text does not fit
  in what the browser grants the page; the item is then what it was.  Whether a value
  fits is the browser's decision, given here as a predicate \<open>fits\<close> on the value
  written.  An accepted write makes the value the item.
\<close>

datatype StorageError = QuotaExceededError

definition setItem :: "(ChatSessionJSON list \<Rightarrow> bool) \<Rightarrow> ChatSessionJSON list \<Rightarrow> StorageError + Storage" where
  "setItem fits v = (if fits v then Inr (Item v) else Inl QuotaExceededError)"

text \<open>The item after a call of a writer: the new one, or the old one when the call threw.\<close>

definition storeAfter :: "Storage \<Rightarrow> StorageError + Storage \<Rightarrow> Storage" where
  "storeAfter saved outcome = (case outcome of Inr stored \<Rightarrow> stored | Inl e \<Rightarrow> saved)"

definition stringifyMessage :: "Message \<Rightarrow> MessageJSON" where
  "stringifyMessage m =
     \<lparr>mid_json = mid m, role_json = role m, content_json = content m,
      timestamp_json = toJSON (timestamp m),
      imageUrl_json = imageUrl m, audioUrl_json = audioUrl m\<rparr>"

definition stringifySession :: "ChatSession \<Rightarrow> ChatSessionJSON" where
  "stringifySession s =
     \<lparr>sid_json = sid s, title_json = title s,
      messages_json = map stringifyMessage (messages s),
      createdAt_json = toJSON (createdAt s), updatedAt_json = toJSON (updatedAt s)\<rparr>"

definition JSON_stringify :: "ChatSession list \<Rightarrow> ChatSessionJSON list" where
  "JSON_stringify history = map stringifySession history"

definition reviveMessage :: "MessageJSON \<Rightarrow> Message" where
  "reviveMessage m =
     \<lparr>mid = mid_json m, role = role_json m, content = content_json m,
      timestamp = new_Date (timestamp_json m),
      imageUrl = imageUrl_json m, audioUrl = audioUrl_json m\<rparr>"

definition reviveSession :: "ChatSessionJSON \<Rightarrow> ChatSession" where
  "reviveSession s =
     \<lparr>sid = sid_json s, title = title_json s,
      messages = map reviveMessage (messages_json s),
      createdAt = new_Date (createdAt_json s), updatedAt = new_Date (updatedAt_json s)\<rparr>"

definition getChatHistory :: "Storage \<Rightarrow> ChatSession list" where
  "getChatHistory saved =
     (case saved of
        Item parsed \<Rightarrow> map reviveSession parsed
      | Unreadable \<Rightarrow> []
      | NoItem \<Rightarrow> [])"

text \<open>\<open>Array.prototype.findIndex\<close>: the first index whose element satisfies the test, or -1.\<close>

fun findIndex :: "('a \<Rightarrow> bool) \<Rightarrow> 'a list \<Rightarrow> int" where
  "findIndex P [] = - 1"
| "findIndex P (x # xs) =
     (if P x then 0 else (let i = findIndex P xs in if i < 0 then - 1 else i + 1))"

text \<open>
  \<open>saveChatHistory\<close> and \<open>deleteChatSession\<close> call \<open>setItem\<close> outside any \<open>try\<close>:
  its error is theirs.
\<close>

definition saveChatHistory ::
  "(ChatSessionJSON list \<Rightarrow> bool) \<Rightarrow> Storage \<Rightarrow> ChatSession \<Rightarrow> StorageError + Storage" where
  "saveChatHistory fits saved session =
     (let history = getChatHistory saved;
          existingIndex = findIndex (\<lambda>s. sid s = sid session) history;
          history1 = (if existingIndex \<ge> 0 then history[nat existingIndex := session]
                      else history @ [session]);
          history2 = (if length history1 > 50 then tl history1 else history1)
      in setItem fits (JSON_stringify history2))"

definition deleteChatSession ::
  "(ChatSessionJSON list \<Rightarrow> bool) \<Rightarrow> Storage \<Rightarrow> jsstring \<Rightarrow> StorageError + Storage" where
  "deleteChatSession fits saved sessionId =
     setItem fits (JSON_stringify (filter (\<lambda>s. sid s \<noteq> sessionId) (getChatHistory saved)))"

definition clearAllHistory :: "Storage \<Rightarrow> Storage" where
  "clearAllHistory saved = NoItem"

section \<open>The remote call and its fallback (chatService.ts)\<close>

definition hi_before :: jsstring where
  "hi_before =
    [0x092E, 0x0948, 0x0902, 0x0928, 0x0947, 0x0020, 0x0906, 0x092A, 0x0915, 0x093E, 0x0020,
     0x0938, 0x0902, 0x0926, 0x0947, 0x0936, 0x0020, 0x092A, 0x094D, 0x0930, 0x093E, 0x092A,
     0x094D, 0x0924, 0x0020, 0x0915, 0x093F, 0x092F, 0x093E, 0x003A, 0x0020, 0x0022]"

definition hi_after :: jsstring where
  "hi_after =
    [0x0022, 0x0964, 0x0020, 0x092F, 0x0939, 0x0020, 0x0935, 0x093F, 0x0915, 0x093E, 0x0938,
     0x0020, 0x0915, 0x0947, 0x0020, 0x0932, 0x093F, 0x090F, 0x0020, 0x090F, 0x0915, 0x0020,
     0x092B, 0x0949, 0x0932, 0x092C, 0x0948, 0x0915, 0x0020, 0x092A, 0x094D, 0x0930, 0x0924,
     0x093F, 0x0915, 0x094D, 0x0930, 0x093F, 0x092F, 0x093E, 0x0020, 0x0939, 0x0948, 0x0964,
     0x0020, 0x0915, 0x0943, 0x092A, 0x092F, 0x093E, 0x0020, 0x0938, 0x0941, 0x0928, 0x093F,
     0x0936, 0x094D, 0x091A, 0x093F, 0x0924, 0x0020, 0x0915, 0x0930, 0x0947, 0x0902, 0x0020,
     0x0915, 0x093F, 0x0020, 0x0050, 0x0079, 0x0074, 0x0068, 0x006F, 0x006E, 0x0020, 0x092C,
     0x0948, 0x0915, 0x090F, 0x0902, 0x0921, 0x0020, 0x092A, 0x094B, 0x0930, 0x094D, 0x091F,
     0x0020, 0x0038, 0x0030, 0x0030, 0x0030, 0x0020, 0x092A, 0x0930, 0x0020, 0x091A, 0x0932,
     0x0020, 0x0930, 0x0939, 0x093E, 0x0020, 0x0939, 0x0948, 0x0964]"

definition ta_before :: jsstring where
  "ta_before =
    [0x0B89, 0x0B99, 0x0BCD, 0x0B95, 0x0BB3, 0x0BCD, 0x0020, 0x0B9A, 0x0BC6, 0x0BAF, 0x0BCD,
     0x0BA4, 0x0BBF, 0x0BAF, 0x0BC8, 0x0BAA, 0x0BCD, 0x0020, 0x0BAA, 0x0BC6, 0x0BB1, 0x0BCD,
     0x0BB1, 0x0BC7, 0x0BA9, 0x0BCD, 0x003A, 0x0020, 0x0022]"

definition ta_after :: jsstring where
  "ta_after =
    [0x0022, 0x002E, 0x0020, 0x0B87, 0x0BA4, 0x0BC1, 0x0020, 0x0BB5, 0x0BB3, 0x0BB0, 0x0BCD,
     0x0B9A, 0x0BCD, 0x0B9A, 0x0BBF, 0x0B95, 0x0BCD, 0x0B95, 0x0BBE, 0x0BA9, 0x0020, 0x0BAE,
     0x0BBE, 0x0BB1, 0x0BCD, 0x0BB1, 0x0BC1, 0x0020, 0x0BAA, 0x0BA4, 0x0BBF, 0x0BB2, 0x0BCD,
     0x002E, 0x0020, 0x0BAA, 0x0BC8, 0x0BA4, 0x0BBE, 0x0BA9, 0x0BCD, 0x0020, 0x0BAA, 0x0BBF,
     0x0BA9, 0x0BCD, 0x0BA4, 0x0BB3, 0x0BAE, 0x0BCD, 0x0020, 0x0BAA, 0x0BCB, 0x0BB0, 0x0BCD,
     0x0B9F, 0x0BCD, 0x0020, 0x0038, 0x0030, 0x0030, 0x0030, 0x0020, 0x0B87, 0x0BB2, 0x0BCD,
     0x0020, 0x0B87, 0x0BAF, 0x0B99, 0x0BCD, 0x0B95, 0x0BC1, 0x0BB5, 0x0BA4, 0x0BC8, 0x0020,
     0x0B89, 0x0BB1, 0x0BC1, 0x0BA4, 0x0BBF, 0x0020, 0x0B9A, 0x0BC6, 0x0BAF, 0x0BCD, 0x0BAF,
     0x0BB5, 0x0BC1, 0x0BAE, 0x0BCD, 0x002E]"

definition te_before :: jsstring where
  "te_before =
    [0x0C2E, 0x0C40, 0x0020, 0x0C38, 0x0C02, 0x0C26, 0x0C47, 0x0C36, 0x0C02, 0x0020, 0x0C05,
     0x0C02, 0x0C26, 0x0C41, 0x0C15, 0x0C41, 0x0C28, 0x0C4D, 0x0C28, 0x0C3E, 0x0C28, 0x0C41,
     0x003A, 0x0020, 0x0022]"

definition te_after :: jsstring where
  "te_after =
    [0x0022, 0x002E, 0x0020, 0x0C07, 0x0C26, 0x0C3F, 0x0020, 0x0C05, 0x0C2D, 0x0C3F, 0x0C35,
     0x0C43, 0x0C26, 0x0C4D, 0x0C27, 0x0C3F, 0x0020, 0x0C15, 0x0C4B, 0x0C38, 0x0C02, 0x0020,
     0x0C2B, 0x0C3E, 0x0C32, 0x0C4D, 0x200C, 0x0C2C, 0x0C4D, 0x0C2F, 0x0C3E, 0x0C15, 0x0C4D,
     0x0020, 0x0C2A, 0x0C4D, 0x0C30, 0x0C24, 0x0C3F, 0x0C38, 0x0C4D, 0x0C2A, 0x0C02, 0x0C26,
     0x0C28, 0x002E, 0x0020, 0x0050, 0x0079, 0x0074, 0x0068, 0x006F, 0x006E, 0x0020, 0x0C2C,
     0x0C4D, 0x0C2F, 0x0C3E, 0x0C15, 0x0C4D, 0x200C, 0x0C0E, 0x0C02, 0x0C21, 0x0C4D, 0x0020,
     0x0C2A, 0x0C4B, 0x0C30, 0x0C4D, 0x0C1F, 0x0C4D, 0x0020, 0x0038, 0x0030, 0x0030, 0x0030,
     0x0C32, 0x0C4B, 0x0020, 0x0C28, 0x0C21, 0x0C41, 0x0C38, 0x0C4D, 0x0C24, 0x0C4B, 0x0C02,
     0x0C26, 0x0C28, 0x0C3F, 0x0020, 0x0C28, 0x0C3F, 0x0C30, 0x0C4D, 0x0C27, 0x0C3E, 0x0C30,
     0x0C3F, 0x0C02, 0x0C1A, 0x0C41, 0x0C15, 0x0C4B, 0x0C02, 0x0C21, 0x0C3F, 0x002E]"

definition kn_before :: jsstring where
  "kn_before =
    [0x0CA8, 0x0CBF, 0x0CAE, 0x0CCD, 0x0CAE, 0x0020, 0x0CB8, 0x0C82, 0x0CA6, 0x0CC7, 0x0CB6,
     0x0CB5, 0x0CA8, 0x0CCD, 0x0CA8, 0x0CC1, 0x0020, 0x0CB8, 0x0CCD, 0x0CB5, 0x0CC0, 0x0C95,
     0x0CB0, 0x0CBF, 0x0CB8, 0x0CBF, 0x0CA6, 0x0CCD, 0x0CA6, 0x0CC7, 0x0CA8, 0x0CC6, 0x003A,
     0x0020, 0x0022]"

definition kn_after :: jsstring where
  "kn_after =
    [0x0022, 0x002E, 0x0020, 0x0C87, 0x0CA6, 0x0CC1, 0x0020, 0x0C85, 0x0CAD, 0x0CBF, 0x0CB5,
     0x0CC3, 0x0CA6, 0x0CCD, 0x0CA7, 0x0CBF, 0x0C97, 0x0CBE, 0x0C97, 0x0CBF, 0x0020, 0x0CAB,
     0x0CBE, 0x0CB2, 0x0CCD, 0x200C, 0x0CAC, 0x0CCD, 0x0CAF, 0x0CBE, 0x0C95, 0x0CCD, 0x0020,
     0x0CAA, 0x0CCD, 0x0CB0, 0x0CA4, 0x0CBF, 0x0C95, 0x0CCD, 0x0CB0, 0x0CBF, 0x0CAF, 0x0CC6,
     0x002E, 0x0020, 0x0050, 0x0079, 0x0074, 0x0068, 0x006F, 0x006E, 0x0020, 0x0CAC, 0x0CCD,
     0x0CAF, 0x0CBE, 0x0C95, 0x0CCD, 0x200C, 0x0C8E, 0x0C82, 0x0CA1, 0x0CCD, 0x0020, 0x0CAA,
     0x0CCB, 0x0CB0, 0x0CCD, 0x0C9F, 0x0CCD, 0x0020, 0x0038, 0x0030, 0x0030, 0x0030, 0x0020,
     0x0CB0, 0x0CB2, 0x0CCD, 0x0CB2, 0x0CBF, 0x0020, 0x0C9A, 0x0CBE, 0x0CB2, 0x0CA8, 0x0CC6,
     0x0CAF, 0x0CB2, 0x0CCD, 0x0CB2, 0x0CBF, 0x0CA6, 0x0CC6, 0x0020, 0x0C8E, 0x0C82, 0x0CA6,
     0x0CC1, 0x0020, 0x0C96, 0x0C9A, 0x0CBF, 0x0CA4, 0x0CAA, 0x0CA1, 0x0CBF, 0x0CB8, 0x0CBF,
     0x0C95, 0x0CCA, 0x0CB3, 0x0CCD, 0x0CB3, 0x0CBF, 0x002E]"

definition ml_before :: jsstring where
  "ml_before =
    [0x0D28, 0x0D3F, 0x0D19, 0x0D4D, 0x0D19, 0x0D33, 0x0D41, 0x0D1F, 0x0D46, 0x0020, 0x0D38,
     0x0D28, 0x0D4D, 0x0D26, 0x0D47, 0x0D36, 0x0D02, 0x0020, 0x0D38, 0x0D4D, 0x0D35, 0x0D40,
     0x0D15, 0x0D30, 0x0D3F, 0x0D1A, 0x0D4D, 0x0D1A, 0x0D41, 0x003A, 0x0020, 0x0022]"

definition ml_after :: jsstring where
  "ml_after =
    [0x0022, 0x002E, 0x0020, 0x0D07, 0x0D24, 0x0D4D, 0x0020, 0x0D35, 0x0D3F, 0x0D15, 0x0D38,
     0x0D28, 0x0D24, 0x0D4D, 0x0D24, 0x0D3F, 0x0D28, 0x0D3E, 0x0D2F, 0x0D41, 0x0D33, 0x0D4D,
     0x0D33, 0x0020, 0x0D2B, 0x0D4B, 0x0D7E, 0x0D2C, 0x0D3E, 0x0D15, 0x0D4D, 0x0D15, 0x0D4D,
     0x0020, 0x0D2A, 0x0D4D, 0x0D30, 0x0D24, 0x0D3F, 0x0D15, 0x0D30, 0x0D23, 0x0D2E, 0x0D3E,
     0x0D23, 0x0D4D, 0x002E, 0x0020, 0x0050, 0x0079, 0x0074, 0x0068, 0x006F, 0x006E, 0x0020,
     0x0D2C, 0x0D3E, 0x0D15, 0x0D4D, 0x0D15, 0x0D4D, 0x0D0E, 0x0D7B, 0x0D21, 0x0D4D, 0x0020,
     0x0D2A, 0x0D4B, 0x0D7C, 0x0D1F, 0x0D4D, 0x0D1F, 0x0D4D, 0x0020, 0x0038, 0x0030, 0x0030,
     0x0030, 0x002D, 0x0D7D, 0x0020, 0x0D2A, 0x0D4D, 0x0D30, 0x0D35, 0x0D7C, 0x0D24, 0x0D4D,
     0x0D24, 0x0D3F, 0x0D15, 0x0D4D, 0x0D15, 0x0D41, 0x0D28, 0x0D4D, 0x0D28, 0x0D41, 0x0D23,
     0x0D4D, 0x0D1F, 0x0D4B, 0x0D2F, 0x0D46, 0x0D28, 0x0D4D, 0x0D28, 0x0D4D, 0x0020, 0x0D09,
     0x0D31, 0x0D2A, 0x0D4D, 0x0D2A, 0x0D3E, 0x0D15, 0x0D4D, 0x0D15, 0x0D41, 0x0D15, 0x002E]"

definition bn_before :: jsstring where
  "bn_before =
    [0x0986, 0x09AE, 0x09BF, 0x0020, 0x0986, 0x09AA, 0x09A8, 0x09BE, 0x09B0, 0x0020, 0x09AC,
     0x09BE, 0x09B0, 0x09CD, 0x09A4, 0x09BE, 0x0020, 0x09AA, 0x09C7, 0x09AF, 0x09BC, 0x09C7,
     0x099B, 0x09BF, 0x003A, 0x0020, 0x0022]"

definition bn_after :: jsstring where
  "bn_after =
    [0x0022, 0x0964, 0x0020, 0x098F, 0x099F, 0x09BF, 0x0020, 0x0989, 0x09A8, 0x09CD, 0x09A8,
     0x09AF, 0x09BC, 0x09A8, 0x09C7, 0x09B0, 0x0020, 0x099C, 0x09A8, 0x09CD, 0x09AF, 0x0020,
     0x098F, 0x0995, 0x099F, 0x09BF, 0x0020, 0x09AB, 0x09B2, 0x09AC, 0x09CD, 0x09AF, 0x09BE,
     0x0995, 0x0020, 0x09AA, 0x09CD, 0x09B0, 0x09A4, 0x09BF, 0x0995, 0x09CD, 0x09B0, 0x09BF,
     0x09AF, 0x09BC, 0x09BE, 0x0964, 0x0020, 0x0985, 0x09A8, 0x09C1, 0x0997, 0x09CD, 0x09B0,
     0x09B9, 0x0020, 0x0995, 0x09B0, 0x09C7, 0x0020, 0x09A8, 0x09BF, 0x09B6, 0x09CD, 0x099A,
     0x09BF, 0x09A4, 0x0020, 0x0995, 0x09B0, 0x09C1, 0x09A8, 0x0020, 0x09AF, 0x09C7, 0x0020,
     0x0050, 0x0079, 0x0074, 0x0068, 0x006F, 0x006E, 0x0020, 0x09AC, 0x09CD, 0x09AF, 0x09BE,
     0x0995, 0x098F, 0x09A8, 0x09CD, 0x09A1, 0x0020, 0x09AA, 0x09CB, 0x09B0, 0x09CD, 0x099F,
     0x0020, 0x0038, 0x0030, 0x0030, 0x0030, 0x002D, 0x098F, 0x0020, 0x099A, 0x09B2, 0x099B,
     0x09C7, 0x0964]"

definition mr_before :: jsstring where
  "mr_before =
    [0x092E, 0x0932, 0x093E, 0x0020, 0x0924, 0x0941, 0x092E, 0x091A, 0x093E, 0x0020, 0x0938,
     0x0902, 0x0926, 0x0947, 0x0936, 0x0020, 0x092E, 0x093F, 0x0933, 0x093E, 0x0932, 0x093E,
     0x003A, 0x0020, 0x0022]"

definition mr_after :: jsstring where
  "mr_after =
    [0x0022, 0x002E, 0x0020, 0x0939, 0x0947, 0x0020, 0x0935, 0x093F, 0x0915, 0x093E, 0x0938,
     0x093E, 0x0938, 0x093E, 0x0920, 0x0940, 0x0020, 0x090F, 0x0915, 0x0020, 0x092B, 0x0949,
     0x0932, 0x092C, 0x0945, 0x0915, 0x0020, 0x092A, 0x094D, 0x0930, 0x0924, 0x093F, 0x0938,
     0x093E, 0x0926, 0x0020, 0x0906, 0x0939, 0x0947, 0x002E, 0x0020, 0x0915, 0x0943, 0x092A,
     0x092F, 0x093E, 0x0020, 0x0916, 0x093E, 0x0924, 0x094D, 0x0930, 0x0940, 0x0020, 0x0915,
     0x0930, 0x093E, 0x0020, 0x0915, 0x0940, 0x0020, 0x0050, 0x0079, 0x0074, 0x0068, 0x006F,
     0x006E, 0x0020, 0x092C, 0x0945, 0x0915, 0x090F, 0x0902, 0x0921, 0x0020, 0x092A, 0x094B,
     0x0930, 0x094D, 0x091F, 0x0020, 0x0038, 0x0030, 0x0030, 0x0030, 0x0020, 0x0935, 0x0930,
     0x0020, 0x091A, 0x093E, 0x0932, 0x0942, 0x0020, 0x0906, 0x0939, 0x0947, 0x002E]"

definition gu_before :: jsstring where
  "gu_before =
    [0x0AAE, 0x0AC7, 0x0A82, 0x0020, 0x0AA4, 0x0AAE, 0x0ABE, 0x0AB0, 0x0ACB, 0x0020, 0x0AB8,
     0x0A82, 0x0AA6, 0x0AC7, 0x0AB6, 0x0020, 0x0AAA, 0x0ACD, 0x0AB0, 0x0ABE, 0x0AAA, 0x0ACD,
     0x0AA4, 0x0020, 0x0A95, 0x0AB0, 0x0ACD, 0x0AAF, 0x0ACB, 0x003A, 0x0020, 0x0022]"

definition gu_after :: jsstring where
  "gu_after =
    [0x0022, 0x002E, 0x0020, 0x0A86, 0x0020, 0x0AB5, 0x0ABF, 0x0A95, 0x0ABE, 0x0AB8, 0x0020,
     0x0AAE, 0x0ABE, 0x0A9F, 0x0AC7, 0x0020, 0x0AAB, 0x0ACB, 0x0AB2, 0x0AAC, 0x0AC7, 0x0A95,
     0x0020, 0x0AAA, 0x0ACD, 0x0AB0, 0x0AA4, 0x0ABF, 0x0AB8, 0x0ABE, 0x0AA6, 0x0020, 0x0A9B,
     0x0AC7, 0x002E, 0x0020, 0x0A95, 0x0AC3, 0x0AAA, 0x0ABE, 0x0020, 0x0A95, 0x0AB0, 0x0AC0,
     0x0AA8, 0x0AC7, 0x0020, 0x0A96, 0x0ABE, 0x0AA4, 0x0AB0, 0x0AC0, 0x0020, 0x0A95, 0x0AB0,
     0x0ACB, 0x0020, 0x0A95, 0x0AC7, 0x0020, 0x0050, 0x0079, 0x0074, 0x0068, 0x006F, 0x006E,
     0x0020, 0x0AAC, 0x0AC7, 0x0A95, 0x0A8F, 0x0AA8, 0x0ACD, 0x0AA1, 0x0020, 0x0AAA, 0x0ACB,
     0x0AB0, 0x0ACD, 0x0A9F, 0x0020, 0x0038, 0x0030, 0x0030, 0x0030, 0x0020, 0x0AAA, 0x0AB0,
     0x0020, 0x0A9A, 0x0ABE, 0x0AB2, 0x0AC0, 0x0020, 0x0AB0, 0x0AB9, 0x0ACD, 0x0AAF, 0x0AC1,
     0x0A82, 0x0020, 0x0A9B, 0x0AC7, 0x002E]"

definition pa_before :: jsstring where
  "pa_before =
    [0x0A2E, 0x0A48, 0x0A02, 0x0020, 0x0A24, 0x0A41, 0x0A39, 0x0A3E, 0x0A21, 0x0A3E, 0x0020,
     0x0A38, 0x0A70, 0x0A26, 0x0A47, 0x0A38, 0x0A3C, 0x0020, 0x0A2A, 0x0A4D, 0x0A30, 0x0A3E,
     0x0A2A, 0x0A24, 0x0020, 0x0A15, 0x0A40, 0x0A24, 0x0A3E, 0x003A, 0x0020, 0x0022]"

definition pa_after :: jsstring where
  "pa_after =
    [0x0022, 0x002E, 0x0020, 0x0A07, 0x0A39, 0x0020, 0x0A35, 0x0A3F, 0x0A15, 0x0A3E, 0x0A38,
     0x0020, 0x0A32, 0x0A08, 0x0020, 0x0A07, 0x0A71, 0x0A15, 0x0020, 0x0A2B, 0x0A4C, 0x0A32,
     0x0A2C, 0x0A48, 0x0A15, 0x0020, 0x0A1C, 0x0A35, 0x0A3E, 0x0A2C, 0x0020, 0x0A39, 0x0A48,
     0x0964, 0x0020, 0x0A15, 0x0A3F, 0x0A30, 0x0A2A, 0x0A3E, 0x0020, 0x0A15, 0x0A30, 0x0A15,
     0x0A47, 0x0020, 0x0A2F, 0x0A15, 0x0A40, 0x0A28, 0x0A40, 0x0020, 0x0A2C, 0x0A23, 0x0A3E,
     0x0A13, 0x0020, 0x0A15, 0x0A3F, 0x0020, 0x0050, 0x0079, 0x0074, 0x0068, 0x006F, 0x006E,
     0x0020, 0x0A2C, 0x0A48, 0x0A15, 0x0A10, 0x0A02, 0x0A21, 0x0020, 0x0A2A, 0x0A4B, 0x0A30,
     0x0A1F, 0x0020, 0x0038, 0x0030, 0x0030, 0x0030, 0x0020, 0x0027, 0x0A24, 0x0A47, 0x0020,
     0x0A1A, 0x0A71, 0x0A32, 0x0020, 0x0A30, 0x0A3F, 0x0A39, 0x0A3E, 0x0020, 0x0A39, 0x0A48,
     0x0964]"

definition en_before :: jsstring where
  "en_before = str ''I received your message: '' @ [0x0022]"

definition en_after :: jsstring where
  "en_after = 0x0022 # str ''. This is a fallback response for development. Please ensure the Python backend is running on port 8000.''"

text \<open>The table \<open>responses\<close> of \<open>getFallbackResponse\<close>, one template literal per language.\<close>

fun responses :: "jsstring \<Rightarrow> Language \<Rightarrow> jsstring" where
  "responses txt En = en_before @ txt @ en_after"
| "responses txt Hi = hi_before @ txt @ hi_after"
| "responses txt Ta = ta_before @ txt @ ta_after"
| "responses txt Te = te_before @ txt @ te_after"
| "responses txt Kn = kn_before @ txt @ kn_after"
| "responses txt Ml = ml_before @ txt @ ml_after"
| "responses txt Bn = bn_before @ txt @ bn_after"
| "responses txt Mr = mr_before @ txt @ mr_after"
| "responses txt Gu = gu_before @ txt @ gu_after"
| "responses txt Pa = pa_before @ txt @ pa_after"

text \<open>At its declared type: \<open>responses[language] || responses["en"]\<close>.\<close>

definition getFallbackResponse :: "jsstring \<Rightarrow> Language \<Rightarrow> jsstring" where
  "getFallbackResponse txt lang =
     (if responses txt lang \<noteq> [] then responses txt lang else responses txt En)"

text \<open>
  The same expression when the key is an arbitrary string, as the claim about keys outside
  the table needs.  \<open>responses\<close> is an object literal, so a property read finds the ten
  own properties and then the properties every object inherits from \<open>Object.prototype\<close>,
  whose values are functions or objects (all truthy); anything else reads \<open>undefined\<close>.
\<close>

fun code :: "Language \<Rightarrow> jsstring" where
  "code En = str ''en''"
| "code Hi = str ''hi''"
| "code Ta = str ''ta''"
| "code Te = str ''te''"
| "code Kn = str ''kn''"
| "code Ml = str ''ml''"
| "code Bn = str ''bn''"
| "code Mr = str ''mr''"
| "code Gu = str ''gu''"
| "code Pa = str ''pa''"

definition supportedLanguages :: "Language list" where
  "supportedLanguages = [En, Hi, Ta, Te, Kn, Ml, Bn, Mr, Gu, Pa]"

definition Object_prototype_keys :: "jsstring list" where
  "Object_prototype_keys =
     [str ''constructor'', str ''__proto__'', str ''hasOwnProperty'', str ''isPrototypeOf'',
      str ''propertyIsEnumerable'', str ''toLocaleString'', str ''toString'', str ''valueOf'',
      str ''__defineGetter__'', str ''__defineSetter__'', str ''__lookupGetter__'',
      str ''__lookupSetter__'']"

datatype Value = String jsstring | Inherited jsstring | Undefined

fun truthyValue :: "Value \<Rightarrow> bool" where
  "truthyValue (String s) = (s \<noteq> [])"
| "truthyValue (Inherited k) = True"
| "truthyValue Undefined = False"

definition responses_get :: "jsstring \<Rightarrow> jsstring \<Rightarrow> Value" where
  "responses_get txt key =
     (case find (\<lambda>l. code l = key) supportedLanguages of
        Some l \<Rightarrow> String (responses txt l)
      | None \<Rightarrow> if key \<in> set Object_prototype_keys then Inherited key else Undefined)"

definition getFallbackResponse_key :: "jsstring \<Rightarrow> jsstring \<Rightarrow> Value" where
  "getFallbackResponse_key txt key =
     (if truthyValue (responses_get txt key) then responses_get txt key
      else responses_get txt (str ''en''))"

text \<open>
  What the network gives for a request: \<open>fetch\<close> rejects, or resolves to a response with
  a status and a body.  A body is not JSON, or an object with an optional \<open>detail\<close> and a
  \<open>response\<close>; the body of a success is taken at its declared type \<open>ChatResponse\<close>,
  whose \<open>response\<close> is a string.
\<close>

datatype Body = NotJSON | JSON "jsstring option" jsstring

datatype Fetch = Rejected jsstring | Response nat Body

datatype error = NetworkError jsstring | HttpError jsstring | ParseError

definition ok :: "nat \<Rightarrow> bool" where
  "ok status \<longleftrightarrow> 200 \<le> status \<and> status \<le> 299"

definition request :: "Fetch \<Rightarrow> error + jsstring" where
  "request outcome =
     (case outcome of
        Rejected msg \<Rightarrow> Inl (NetworkError msg)
      | Response status body \<Rightarrow>
          if \<not> ok status then
            Inl (HttpError
                  (case body of
                     JSON (Some detail) r \<Rightarrow>
                       if detail \<noteq> [] then detail
                       else str ''HTTP error! status: '' @ Number_toString (int status)
                   | _ \<Rightarrow> str ''HTTP error! status: '' @ Number_toString (int status)))
          else (case body of NotJSON \<Rightarrow> Inl ParseError | JSON detail r \<Rightarrow> Inr r))"

text \<open>
  \<open>sendMessage\<close>: \<open>dev\<close> is \<open>import.meta.env.DEV\<close>, \<open>fetch\<close> the network, \<open>sessionId\<close>
  the service's own field.  It returns the request it issued and its outcome.
\<close>

definition sendMessage ::
  "bool \<Rightarrow> (ChatRequest \<Rightarrow> Fetch) \<Rightarrow> jsstring \<Rightarrow>
   jsstring \<Rightarrow> Language \<Rightarrow> jsstring option \<Rightarrow> jsstring option \<Rightarrow> ChatRequest \<times> (error + jsstring)" where
  "sendMessage dev fetch sessionId txt lang imageBase64 audioFile =
     (let req = \<lparr>text_req = txt, image_base64 = imageBase64, audio_file = audioFile,
                 session_id = sessionId, language_req = lang\<rparr>
      in (req,
          case request (fetch req) of
            Inr r \<Rightarrow> Inr r
          | Inl e \<Rightarrow> if dev then Inr (getFallbackResponse txt lang) else Inl e))"

section \<open>Sending a message (ChatPage.tsx)\<close>

text \<open>
  The surroundings of one send: the build flag, the network, what the browser's store
  accepts, the selected language, the translation function \<open>t\<close> (here \<open>tr\<close>) and the
  clock readings the handler takes, in the order of the source: \<open>Date.now()\<close> and
  \<open>new Date()\<close> for the user message, \<open>new Date()\<close> for \<open>updatedAt\<close>, and the
  same three for the reply (the assistant's message of the \<open>try\<close> block, or the notice
  of the \<open>catch\<close> block when the remote call threw).  When the \<open>try\<close> block throws
  after it has built the reply, the \<open>catch\<close> block takes three readings more.
\<close>

record Env =
  dev :: bool
  fetch :: "ChatRequest \<Rightarrow> Fetch"
  language :: Language
  tr :: "jsstring \<Rightarrow> jsstring"
  now_user :: int
  date_user :: int
  date_updated :: int
  now_reply :: int
  date_reply :: int
  date_final :: int
  fits :: "ChatSessionJSON list \<Rightarrow> bool"
  now_notice :: int
  date_notice :: int
  date_closed :: int

text \<open>
  The state the handler reads and writes: the component's \<open>sessions\<close> (the index shown
  in the sidebar), \<open>currentSession\<close> and \<open>isLoading\<close>, the service's \<open>sessionId\<close>,
  the stored item, and the requests issued so far.
\<close>

record PageState =
  sessions :: "ChatSession list"
  currentSession :: ChatSession
  isLoading :: bool
  sessionId :: jsstring
  localStorage :: Storage
  requests :: "ChatRequest list"

text \<open>The updater passed to \<open>setSessions\<close> after a successful exchange.\<close>

definition setSessions_updater :: "ChatSession \<Rightarrow> ChatSession list \<Rightarrow> ChatSession list" where
  "setSessions_updater finalSession prev =
     (case find (\<lambda>s. sid s = sid finalSession) prev of
        Some existing \<Rightarrow> map (\<lambda>s. if sid s = sid finalSession then finalSession else s) prev
      | None \<Rightarrow> finalSession # prev)"

text \<open>
  The values \<open>handleSend\<close> builds: the user message, the session with that message
  appended (and the derived title, for a first message with text), an assistant message
  (the reply, or the notice: both have the same shape) and the session with it appended.
\<close>

definition userMessage :: "Env \<Rightarrow> jsstring \<Rightarrow> jsstring option \<Rightarrow> jsstring option \<Rightarrow> Message" where
  "userMessage env txt imageBase64 audioFile =
     \<lparr>mid = Number_toString (now_user env), role = User, content = txt,
      timestamp = Date (date_user env),
      imageUrl = imageBase64, audioUrl = audioFile\<rparr>"

definition updatedSession ::
  "Env \<Rightarrow> ChatSession \<Rightarrow> jsstring \<Rightarrow> jsstring option \<Rightarrow> jsstring option \<Rightarrow> ChatSession" where
  "updatedSession env current txt imageBase64 audioFile =
     (let appended = current
            \<lparr>messages := messages current @ [userMessage env txt imageBase64 audioFile],
             updatedAt := Date (date_updated env)\<rparr>
      in if length (messages appended) = 1 \<and> trim txt \<noteq> []
         then appended\<lparr>title := generateTitle txt\<rparr> else appended)"

definition assistantMessage :: "int \<Rightarrow> int \<Rightarrow> jsstring \<Rightarrow> Message" where
  "assistantMessage now date body =
     \<lparr>mid = Number_toString (now + 1), role = Assistant, content = body,
      timestamp = Date date, imageUrl = None, audioUrl = None\<rparr>"

definition finalSession :: "ChatSession \<Rightarrow> Message \<Rightarrow> int \<Rightarrow> ChatSession" where
  "finalSession updated reply date =
     updated\<lparr>messages := messages updated @ [reply], updatedAt := Date date\<rparr>"

text \<open>
  \<open>handleSend\<close>.  In the \<open>try\<close> block the call of \<open>saveChatHistory\<close> stands before
  \<open>setSessions\<close>: when it throws, the \<open>catch\<close> block runs as it does for a failed
  remote call, and replaces the active session by the one that ends with the notice.
\<close>

definition handleSend ::
  "Env \<Rightarrow> PageState \<Rightarrow> jsstring \<Rightarrow> jsstring option \<Rightarrow> jsstring option \<Rightarrow> PageState" where
  "handleSend env st txt imageBase64 audioFile =
     (if trim txt = [] \<and> \<not> truthy imageBase64 \<and> \<not> truthy audioFile then st
      else
        let updated = updatedSession env (currentSession st) txt imageBase64 audioFile;
            (req, result) =
              sendMessage (dev env) (fetch env) (sessionId st) txt (language env)
                imageBase64 audioFile;
            notice = tr env (str ''maintenance'')
        in case result of
             Inr response \<Rightarrow>
               let final =
                     finalSession updated
                       (assistantMessage (now_reply env) (date_reply env) response)
                       (date_final env)
               in (case saveChatHistory (fits env) (localStorage st) final of
                     Inr stored \<Rightarrow>
                       st\<lparr>currentSession := final,
                          localStorage := stored,
                          sessions := setSessions_updater final (sessions st),
                          isLoading := False,
                          requests := requests st @ [req]\<rparr>
                   | Inl quota \<Rightarrow>
                       st\<lparr>currentSession :=
                            finalSession updated
                              (assistantMessage (now_notice env) (date_notice env) notice)
                              (date_closed env),
                          isLoading := False,
                          requests := requests st @ [req]\<rparr>)
           | Inl e \<Rightarrow>
               st\<lparr>currentSession :=
                    finalSession updated
                      (assistantMessage (now_reply env) (date_reply env) notice)
                      (date_final env),
                  isLoading := False,
                  requests := requests st @ [req]\<rparr>)"

section \<open>The composer and the recorder (ChatInput.tsx)\<close>

text \<open>
  The recorder object and the microphone stream it captures: \<open>recording\<close> is the
  recorder's own state, \<open>stream_live\<close> says that the tracks of the stream have not been
  stopped (the device is held), \<open>reading\<close> that the \<open>FileReader\<close> started by
  \<open>onstop\<close> is encoding the clip.
\<close>

record MediaRecorder =
  recording :: bool
  stream_live :: bool
  reading :: bool

record InputState =
  input :: jsstring
  selectedImage :: "jsstring option"
  audioFile_state :: "jsstring option"
  isRecording :: bool
  recordingTime :: nat
  mediaRecorderRef :: "MediaRecorder option"
  recordingIntervalRef :: "nat option"

text \<open>\<open>v || undefined\<close> on a string or \<open>null\<close>.\<close>

definition or_undefined :: "jsstring option \<Rightarrow> jsstring option" where
  "or_undefined v = (if truthy v then v else None)"

text \<open>
  \<open>handleSend\<close> of the composer.  It returns the new state and the arguments of the call
  of \<open>onSend\<close>, if it makes one.
\<close>

definition ChatInput_handleSend ::
  "bool \<Rightarrow> bool \<Rightarrow> InputState \<Rightarrow>
   InputState \<times> (jsstring \<times> jsstring option \<times> jsstring option) option" where
  "ChatInput_handleSend loading disabled st =
     (if (trim (input st) = [] \<and> \<not> truthy (selectedImage st) \<and> \<not> truthy (audioFile_state st))
         \<or> loading \<or> disabled
      then (st, None)
      else (st\<lparr>input := [], selectedImage := None, audioFile_state := None\<rparr>,
            Some (trim (input st), or_undefined (selectedImage st),
                  or_undefined (audioFile_state st))))"

text \<open>
  \<open>startRecording\<close>: \<open>granted\<close> says whether \<open>getUserMedia\<close> resolved (otherwise
  the handler's \<open>catch\<close> shows an alert), \<open>timer\<close> is the id \<open>setInterval\<close> returns.
  The held clip is cleared before the microphone is asked for.
\<close>

definition startRecording :: "bool \<Rightarrow> nat \<Rightarrow> InputState \<Rightarrow> InputState" where
  "startRecording granted timer st =
     (if granted then
        st\<lparr>audioFile_state := None,
           mediaRecorderRef := Some \<lparr>recording = True, stream_live = True, reading = False\<rparr>,
           isRecording := True,
           recordingTime := 0,
           recordingIntervalRef := Some timer\<rparr>
      else st\<lparr>audioFile_state := None\<rparr>)"

text \<open>
  \<open>MediaRecorder.stop\<close> with the \<open>onstop\<close> handler installed by \<open>startRecording\<close>:
  the clip is handed to a \<open>FileReader\<close> and the tracks of the stream are stopped.  A
  recorder that is already inactive is left as it is.
\<close>

definition MediaRecorder_stop :: "MediaRecorder \<Rightarrow> MediaRecorder" where
  "MediaRecorder_stop r =
     (if recording r then r\<lparr>recording := False, stream_live := False, reading := True\<rparr> else r)"

definition stopRecording :: "InputState \<Rightarrow> InputState" where
  "stopRecording st =
     (case mediaRecorderRef st of
        Some r \<Rightarrow>
          if isRecording st then
            st\<lparr>mediaRecorderRef := Some (MediaRecorder_stop r),
               isRecording := False,
               recordingIntervalRef :=
                 (case recordingIntervalRef st of
                    Some timer \<Rightarrow> if timer \<noteq> 0 then None else Some timer
                  | None \<Rightarrow> None)\<rparr>
          else st
      | None \<Rightarrow> st)"

section \<open>Example values\<close>

text \<open>
  A fresh session, a page showing it, and the surroundings of a send, with a store that
  has room for every value.
\<close>

definition example_session :: ChatSession where
  "example_session =
     \<lparr>sid = str ''session_k3x9'', title = str ''New Chat'', messages = [],
      createdAt = Date 1730633600000, updatedAt = Date 1730633600000\<rparr>"

definition example_state :: PageState where
  "example_state =
     \<lparr>sessions = [], currentSession = example_session, isLoading = False,
      sessionId = str ''session_k3x9'', localStorage = NoItem, requests = []\<rparr>"

definition offline :: "ChatRequest \<Rightarrow> Fetch" where
  "offline req = Rejected (str ''Failed to fetch'')"

definition online :: "ChatRequest \<Rightarrow> Fetch" where
  "online req = Response 200 (JSON None (str ''Water the crop at dawn.''))"

definition example_env :: "bool \<Rightarrow> (ChatRequest \<Rightarrow> Fetch) \<Rightarrow> Env" where
  "example_env flag net =
     \<lparr>dev = flag, fetch = net, language = En, tr = (\<lambda>key. key),
      now_user = 1730633696789, date_user = 1730633696789, date_updated = 1730633696790,
      now_reply = 1730633697100, date_reply = 1730633697100, date_final = 1730633697101,
      fits = (\<lambda>v. True),
      now_notice = 1730633697102, date_notice = 1730633697102, date_closed = 1730633697103\<rparr>"

definition example_input :: InputState where
  "example_input =
     \<lparr>input = [], selectedImage = None,
      audioFile_state = Some (str ''data:audio/webm;base64,GkXf''),
      isRecording = False, recordingTime = 4,
      mediaRecorderRef = Some \<lparr>recording = False, stream_live = False, reading = False\<rparr>,
      recordingIntervalRef = None\<rparr>"

definition older_session :: ChatSession where
  "older_session =
     \<lparr>sid = str ''session_a1'', title = str ''Soil pH'', messages = [],
      createdAt = Date 1730547200000, updatedAt = Date 1730547260000\<rparr>"

definition indexed_state :: PageState where
  "indexed_state = example_state\<lparr>sessions := [older_session, example_session]\<rparr>"

section \<open>Valid sessions and sequences of writes\<close>

text \<open>
  A valid \<open>Date\<close> holds a time value (it is not the invalid date); every time value a
  \<open>Date\<close> can hold is at most \<open>maxTime\<close> in magnitude.  A valid session has valid
  dates in \<open>createdAt\<close>, \<open>updatedAt\<close> and the \<open>timestamp\<close> of each message.
\<close>

fun validDate :: "Date \<Rightarrow> bool" where
  "validDate (Date tv) = (\<bar>tv\<bar> \<le> maxTime)"
| "validDate InvalidDate = False"

definition validSession :: "ChatSession \<Rightarrow> bool" where
  "validSession s \<longleftrightarrow>
     validDate (createdAt s) \<and> validDate (updatedAt s) \<and>
     list_all (\<lambda>m. validDate (timestamp m)) (messages s)"

text \<open>
  A call of one of the service's three writers, and the item after it; a sequence of
  such calls is a fold.
\<close>

datatype Call = Save ChatSession | Delete jsstring | Clear

fun perform :: "(ChatSessionJSON list \<Rightarrow> bool) \<Rightarrow> Storage \<Rightarrow> Call \<Rightarrow> Storage" where
  "perform accepted saved (Save session) =
     storeAfter saved (saveChatHistory accepted saved session)"
| "perform accepted saved (Delete key) =
     storeAfter saved (deleteChatSession accepted saved key)"
| "perform accepted saved Clear = clearAllHistory saved"

text \<open>A store that is full: fifty sessions, with ids of one code unit each.\<close>

definition full_history :: "ChatSession list" where
  "full_history = map (\<lambda>n. older_session\<lparr>sid := [of_nat n]\<rparr>) [0..<50]"

definition full_store :: Storage where
  "full_store = Item (JSON_stringify full_history)"

text \<open>
  A store with a quota, as an example of \<open>fits\<close>: a value is refused when the strings
  of its ids, titles, contents and attachments alone hold more code units than the
  quota (the text \<open>JSON.stringify\<close> writes is longer than that).
\<close>

definition units_Message :: "MessageJSON \<Rightarrow> nat" where
  "units_Message m =
     length (mid_json m) + length (content_json m) +
     (case imageUrl_json m of Some u \<Rightarrow> length u | None \<Rightarrow> 0) +
     (case audioUrl_json m of Some u \<Rightarrow> length u | None \<Rightarrow> 0)"

definition units_Session :: "ChatSessionJSON \<Rightarrow> nat" where
  "units_Session s =
     length (sid_json s) + length (title_json s) + sum_list (map units_Message (messages_json s))"

definition within_quota :: "nat \<Rightarrow> ChatSessionJSON list \<Rightarrow> bool" where
  "within_quota quota v \<longleftrightarrow> sum_list (map units_Session v) \<le> quota"

text \<open>The active session after one exchange: a user message and a reply.\<close>

definition answered_session :: ChatSession where
  "answered_session =
     example_session
       \<lparr>title := str ''Hello'',
        messages :=
          [\<lparr>mid = str ''1730633696789'', role = User, content = str ''Hello'',
            timestamp = Date 1730633696789, imageUrl = None, audioUrl = None\<rparr>,
           \<lparr>mid = str ''1730633697101'', role = Assistant,
            content = str ''Water the crop at dawn.'',
            timestamp = Date 1730633697100, imageUrl = None, audioUrl = None\<rparr>],
        updatedAt := Date 1730633697101\<rparr>"

text \<open>
  A session whose user message carries a picture: a data URL of more than five million
  code units.
\<close>

definition pictured_session :: ChatSession where
  "pictured_session =
     example_session
       \<lparr>title := str ''Hello'',
        messages :=
          [\<lparr>mid = str ''1730633696789'', role = User, content = str ''Hello'',
            timestamp = Date 1730633696789,
            imageUrl = Some (str ''data:image/png;base64,'' @ replicate 5300000 0x41),
            audioUrl = None\<rparr>],
        updatedAt := Date 1730633696790\<rparr>"

section \<open>Strings: basic facts\<close>

lemma str_Nil [simp]: "str [] = []"
  by (simp add: str_def)

lemma str_Cons [simp]: "str (c # cs) = of_char c # str cs"
  by (simp add: str_def)

lemma trim_Nil [simp]: "trim [] = []"
  by (simp add: trim_def)

lemma trim_blank: "list_all isWhiteSpace s \<Longrightarrow> trim s = []"
proof -
  assume "list_all isWhiteSpace s"
  then have dropped: "dropWhile isWhiteSpace s = []"
    by (simp add: list_all_iff)
  show ?thesis unfolding trim_def dropped by simp
qed

section \<open>The payload guard\<close>

text \<open>
  C7.  A send with empty text, no image and no audio changes nothing: the page state,
  with the active session, the index, the stored item and the list of issued requests,
  is the one before, so no message is appended and no request is made.
\<close>

theorem handleSend_empty_noop: "handleSend env st [] None None = st"
  by (simp add: handleSend_def)

text \<open>
  C9.  The same holds for a text of whitespace only, since the guard tests the trimmed
  text; the composer's own handler, under the same guard, does not call \<open>onSend\<close> and
  keeps its state.
\<close>

theorem handleSend_blank_noop:
  "list_all isWhiteSpace txt \<Longrightarrow>
     handleSend env st txt None None = st \<and>
     ChatInput_handleSend loading disabled
        (ist\<lparr>input := txt, selectedImage := None, audioFile_state := None\<rparr>) =
       (ist\<lparr>input := txt, selectedImage := None, audioFile_state := None\<rparr>, None)"
  by (simp add: handleSend_def ChatInput_handleSend_def trim_blank)

theorem handleSend_blank_noop_witness:
  "list_all isWhiteSpace [0x0020, 0x0009, 0x3000, 0x000A] \<and>
   handleSend (example_env False online) example_state [0x0020, 0x0009, 0x3000, 0x000A]
     None None = example_state \<and>
   snd (ChatInput_handleSend False False
          (example_input\<lparr>input := [0x0020, 0x0009, 0x3000, 0x000A], selectedImage := None,
                          audioFile_state := None\<rparr>)) = None"
proof -
  have blank: "list_all isWhiteSpace [0x0020, 0x0009, 0x3000, 0x000A]"
    by (simp add: isWhiteSpace_def)
  from handleSend_blank_noop [OF blank, of "example_env False online" example_state
      False False example_input]
  show ?thesis using blank by simp
qed

section \<open>The recorder\<close>

text \<open>
  C8.  \<open>stopRecording\<close> while not recording changes nothing: the recording flag, the
  recorder and the stream it holds, the timer and the held clip stay as they are.
\<close>

theorem stopRecording_idle_noop: "\<not> isRecording st \<Longrightarrow> stopRecording st = st"
  by (simp add: stopRecording_def split: option.split)

theorem stopRecording_idle_noop_witness:
  "\<not> isRecording example_input \<and> stopRecording example_input = example_input"
proof -
  have idle: "\<not> isRecording example_input"
    by (simp add: example_input_def)
  from stopRecording_idle_noop [OF idle] idle show ?thesis by simp
qed

section \<open>Title derivation\<close>






section \<open>The development fallback\<close>

lemma responses_nonempty: "responses txt lang \<noteq> []"
  by (cases lang)
    (simp_all add: en_before_def hi_before_def ta_before_def te_before_def kn_before_def
      ml_before_def bn_before_def mr_before_def gu_before_def pa_before_def)

lemma getFallbackResponse_responses: "getFallbackResponse txt lang = responses txt lang"
  by (simp add: getFallbackResponse_def responses_nonempty)

lemma sublist_responses: "sublist txt (responses txt lang)"
  by (cases lang) simp_all

lemma responses_template: "\<exists>before after. \<forall>t. responses t lang = before @ t @ after"
  by (cases lang) (simp_all, blast+)

lemma responses_differ: "other \<noteq> lang \<Longrightarrow> responses txt other \<noteq> responses txt lang"
  by (cases other; cases lang)
    (simp_all add: en_before_def hi_before_def ta_before_def te_before_def kn_before_def
      ml_before_def bn_before_def mr_before_def gu_before_def pa_before_def)

text \<open>
  C6.  When the remote call fails (the network rejects, the status is not a success, or
  the body of a success is not JSON), a development build returns the placeholder of the
  language and a production build raises the error.  The placeholder is a fixed text
  around the input text, which it contains, and no two languages have the same one.
\<close>

theorem sendMessage_fallback:
  "request (net \<lparr>text_req = txt, image_base64 = img, audio_file = aud, session_id = sess,
              language_req = lang\<rparr>) = Inl e \<Longrightarrow>
     snd (sendMessage True net sess txt lang img aud) = Inr (responses txt lang) \<and>
     sublist txt (responses txt lang) \<and>
     (\<exists>before after. \<forall>t. responses t lang = before @ t @ after) \<and>
     (\<forall>other. other \<noteq> lang \<longrightarrow> responses txt other \<noteq> responses txt lang) \<and>
     snd (sendMessage False net sess txt lang img aud) = Inl e"
  by (simp add: sendMessage_def getFallbackResponse_responses sublist_responses
      responses_template responses_differ)

theorem sendMessage_fallback_witness:
  "request (offline \<lparr>text_req = str ''Hello'', image_base64 = None, audio_file = None,
       session_id = str ''session_k3x9'', language_req = En\<rparr>) =
     Inl (NetworkError (str ''Failed to fetch'')) \<and>
   snd (sendMessage True offline (str ''session_k3x9'') (str ''Hello'') En None None) =
     Inr (str ''I received your message: '' @ 0x0022 # str ''Hello'' @ 0x0022 #
          str ''. This is a fallback response for development. Please ensure the Python backend is running on port 8000.'') \<and>
   sublist (str ''Hello'') (responses (str ''Hello'') En) \<and>
   responses (str ''Hello'') Hi \<noteq> responses (str ''Hello'') En \<and>
   snd (sendMessage False offline (str ''session_k3x9'') (str ''Hello'') En None None) =
     Inl (NetworkError (str ''Failed to fetch''))"
proof -
  have failed: "request (offline \<lparr>text_req = str ''Hello'', image_base64 = None,
       audio_file = None, session_id = str ''session_k3x9'', language_req = En\<rparr>) =
     Inl (NetworkError (str ''Failed to fetch''))"
    by (simp add: request_def offline_def)
  have english: "responses (str ''Hello'') En =
      str ''I received your message: '' @ 0x0022 # str ''Hello'' @ 0x0022 #
      str ''. This is a fallback response for development. Please ensure the Python backend is running on port 8000.''"
    by (simp add: en_before_def en_after_def)
  have "snd (sendMessage True offline (str ''session_k3x9'') (str ''Hello'') En None None) =
      Inr (responses (str ''Hello'') En) \<and>
    sublist (str ''Hello'') (responses (str ''Hello'') En) \<and>
    (\<exists>before after. \<forall>t. responses t En = before @ t @ after) \<and>
    (\<forall>other. other \<noteq> En \<longrightarrow> responses (str ''Hello'') other \<noteq> responses (str ''Hello'') En) \<and>
    snd (sendMessage False offline (str ''session_k3x9'') (str ''Hello'') En None None) =
      Inl (NetworkError (str ''Failed to fetch''))"
    using failed by (rule sendMessage_fallback)
  then have "snd (sendMessage True offline (str ''session_k3x9'') (str ''Hello'') En None None) =
      Inr (responses (str ''Hello'') En)"
    and "sublist (str ''Hello'') (responses (str ''Hello'') En)"
    and "responses (str ''Hello'') Hi \<noteq> responses (str ''Hello'') En"
    and "snd (sendMessage False offline (str ''session_k3x9'') (str ''Hello'') En None None) =
      Inl (NetworkError (str ''Failed to fetch''))"
    by blast+
  with failed show ?thesis
    unfolding english by blast
qed

section \<open>Keys of the fallback table\<close>

lemma find_code: "find (\<lambda>l. code l = code lang) supportedLanguages = Some lang"
  by (cases lang) (simp_all add: supportedLanguages_def)

lemma supportedLanguages_all: "lang \<in> set supportedLanguages"
  by (cases lang) (simp_all add: supportedLanguages_def)

lemma responses_get_code: "responses_get txt (code lang) = String (responses txt lang)"
  by (simp add: responses_get_def find_code)

lemma responses_get_outside:
  "key \<notin> code ` set supportedLanguages \<Longrightarrow> key \<notin> set Object_prototype_keys \<Longrightarrow>
     responses_get txt key = Undefined"
  by (auto simp: responses_get_def find_None_iff split: option.split)

lemma code_En: "code En = str ''en''"
  by simp

text \<open>
  C10 (amended).  Every language of the enumeration has a response, which contains the
  input text; a key that is neither in the table nor the name of a property inherited
  from \<open>Object.prototype\<close> gives the English response.
\<close>

theorem getFallbackResponse_keys:
  "lang \<in> set supportedLanguages \<and>
   getFallbackResponse_key txt (code lang) = String (responses txt lang) \<and>
   getFallbackResponse txt lang = responses txt lang \<and>
   sublist txt (responses txt lang) \<and>
   (key \<notin> code ` set supportedLanguages \<longrightarrow> key \<notin> set Object_prototype_keys \<longrightarrow>
      getFallbackResponse_key txt key = String (responses txt En))"
proof -
  have en: "responses_get txt (str ''en'') = String (responses txt En)"
    using responses_get_code [of _ En] by (simp only: code_En)
  have "getFallbackResponse_key txt (code lang) = String (responses txt lang)"
    by (simp add: getFallbackResponse_key_def responses_get_code responses_nonempty)
  moreover have "getFallbackResponse_key txt key = String (responses txt En)"
    if "key \<notin> code ` set supportedLanguages" "key \<notin> set Object_prototype_keys"
    using that en by (simp add: getFallbackResponse_key_def responses_get_outside)
  ultimately show ?thesis
    by (simp add: supportedLanguages_all getFallbackResponse_responses sublist_responses)
qed

lemma fr_outside:
  "str ''fr'' \<notin> code ` set supportedLanguages" "str ''fr'' \<notin> set Object_prototype_keys"
  by (simp_all add: supportedLanguages_def Object_prototype_keys_def)

theorem getFallbackResponse_keys_witness:
  "str ''fr'' \<notin> code ` set supportedLanguages \<and> str ''fr'' \<notin> set Object_prototype_keys \<and>
   getFallbackResponse_key (str ''Hello'') (str ''fr'') = String (responses (str ''Hello'') En) \<and>
   getFallbackResponse_key (str ''Hello'') (code Ta) = String (responses (str ''Hello'') Ta) \<and>
   sublist (str ''Hello'') (responses (str ''Hello'') Ta)"
  using getFallbackResponse_keys [of Ta "str ''Hello''" "str ''fr''"] fr_outside
  by simp

text \<open>
  The key \<open>constructor\<close> is outside the table, and the value returned for it is the
  inherited member, not the English response.
\<close>

theorem getFallbackResponse_key_counterexample:
  "str ''constructor'' \<notin> code ` set supportedLanguages \<and>
   getFallbackResponse_key (str ''Hello'') (str ''constructor'') \<noteq>
     String (responses (str ''Hello'') En)"
  by (simp add: supportedLanguages_def getFallbackResponse_key_def responses_get_def
      Object_prototype_keys_def)

section \<open>The outcomes of a send\<close>

lemma setSessions_updater_cases:
  "setSessions_updater final prev =
     (if sid final \<in> sid ` set prev
      then map (\<lambda>s. if sid s = sid final then final else s) prev
      else final # prev)"
proof (cases "find (\<lambda>s. sid s = sid final) prev")
  case None
  then have "sid final \<notin> sid ` set prev"
    by (auto simp: find_None_iff)
  with None show ?thesis by (simp add: setSessions_updater_def)
next
  case (Some existing)
  then have "existing \<in> set prev" "sid existing = sid final"
    by (auto simp: find_Some_iff)
  then have "sid final \<in> sid ` set prev"
    by (metis image_eqI)
  with Some show ?thesis by (simp add: setSessions_updater_def)
qed

lemma sid_updatedSession [simp]: "sid (updatedSession env current msg img aud) = sid current"
  by (simp add: updatedSession_def Let_def)

lemma sid_finalSession [simp]: "sid (finalSession updated reply date) = sid updated"
  by (simp add: finalSession_def)

lemma role_assistantMessage [simp]: "role (assistantMessage now date body) = Assistant"
  by (simp add: assistantMessage_def)

lemma roles_updatedSession:
  "map role (messages (updatedSession env current msg img aud)) =
     map role (messages current) @ [User]"
  by (simp add: updatedSession_def userMessage_def Let_def)

lemma handleSend_roles:
  "\<not> (trim msg = [] \<and> \<not> truthy img \<and> \<not> truthy aud) \<Longrightarrow>
     map role (messages (currentSession (handleSend env st msg img aud))) =
       map role (messages (currentSession st)) @ [User, Assistant]"
  by (simp add: handleSend_def Let_def finalSession_def roles_updatedSession
      split: prod.split sum.split)

lemma handleSend_sid:
  "sid (currentSession (handleSend env st msg img aud)) = sid (currentSession st)"
  by (simp add: handleSend_def Let_def split: sum.split prod.split)

text \<open>The remote call answers and the store accepts the write.\<close>

lemma handleSend_success:
  assumes "\<not> (trim msg = [] \<and> \<not> truthy img \<and> \<not> truthy aud)"
    and "snd (sendMessage (dev env) (fetch env) (sessionId st) msg (language env) img aud) = Inr r"
    and "saveChatHistory (fits env) (localStorage st)
           (finalSession (updatedSession env (currentSession st) msg img aud)
              (assistantMessage (now_reply env) (date_reply env) r) (date_final env)) =
         Inr stored"
  shows "sessions (handleSend env st msg img aud) =
           setSessions_updater (currentSession (handleSend env st msg img aud)) (sessions st)"
    and "localStorage (handleSend env st msg img aud) = stored"
    and "currentSession (handleSend env st msg img aud) =
           finalSession (updatedSession env (currentSession st) msg img aud)
             (assistantMessage (now_reply env) (date_reply env) r) (date_final env)"
  using assms by (auto simp: handleSend_def Let_def split: prod.split)

text \<open>The remote call throws.\<close>

lemma handleSend_failure:
  assumes "snd (sendMessage (dev env) (fetch env) (sessionId st) msg (language env) img aud) = Inl e"
  shows "sessions (handleSend env st msg img aud) = sessions st"
    and "localStorage (handleSend env st msg img aud) = localStorage st"
  using assms by (auto simp: handleSend_def Let_def split: prod.split)

text \<open>
  The remote call answers and the store refuses the write: the \<open>catch\<close> block runs, the
  active session ends with the notice in place of the reply, and neither the item nor
  the index changes.
\<close>

lemma handleSend_refused:
  assumes "\<not> (trim msg = [] \<and> \<not> truthy img \<and> \<not> truthy aud)"
    and "snd (sendMessage (dev env) (fetch env) (sessionId st) msg (language env) img aud) = Inr r"
    and "saveChatHistory (fits env) (localStorage st)
           (finalSession (updatedSession env (currentSession st) msg img aud)
              (assistantMessage (now_reply env) (date_reply env) r) (date_final env)) =
         Inl quota"
  shows "sessions (handleSend env st msg img aud) = sessions st"
    and "localStorage (handleSend env st msg img aud) = localStorage st"
    and "currentSession (handleSend env st msg img aud) =
           finalSession (updatedSession env (currentSession st) msg img aud)
             (assistantMessage (now_notice env) (date_notice env) (tr env (str ''maintenance'')))
             (date_closed env)"
  using assms by (auto simp: handleSend_def Let_def split: prod.split)

text \<open>
  C5 (amended).  After a successful exchange whose save the store accepts, the index is
  updated by insert-or-update: a session whose id is not yet in the index is put at the
  front; one whose id is there replaces the entries of that id where they stand, and the
  order of the index is kept.
\<close>

theorem index_update_on_success:
  "\<not> (trim msg = [] \<and> \<not> truthy img \<and> \<not> truthy aud) \<Longrightarrow>
   snd (sendMessage (dev env) (fetch env) (sessionId st) msg (language env) img aud) = Inr r \<Longrightarrow>
   saveChatHistory (fits env) (localStorage st)
     (finalSession (updatedSession env (currentSession st) msg img aud)
        (assistantMessage (now_reply env) (date_reply env) r) (date_final env)) = Inr stored \<Longrightarrow>
   sessions (handleSend env st msg img aud) =
     (if sid (currentSession st) \<in> sid ` set (sessions st)
      then map (\<lambda>s. if sid s = sid (currentSession st)
                     then currentSession (handleSend env st msg img aud) else s) (sessions st)
      else currentSession (handleSend env st msg img aud) # sessions st) \<and>
   currentSession (handleSend env st msg img aud) =
     finalSession (updatedSession env (currentSession st) msg img aud)
       (assistantMessage (now_reply env) (date_reply env) r) (date_final env) \<and>
   localStorage (handleSend env st msg img aud) = stored"
  by (simp add: handleSend_success setSessions_updater_cases handleSend_sid)

lemma Hello_nonblank: "trim (str ''Hello'') \<noteq> []"
  by (simp add: trim_def isWhiteSpace_def)

lemma online_ok:
  "snd (sendMessage (dev (example_env False online)) (fetch (example_env False online))
      sess (str ''Hello'') (language (example_env False online)) None None) =
     Inr (str ''Water the crop at dawn.'')"
  by (simp add: example_env_def sendMessage_def request_def online_def ok_def)

lemma offline_fails:
  "snd (sendMessage (dev (example_env False offline)) (fetch (example_env False offline))
      sess (str ''Hello'') (language (example_env False offline)) None None) =
     Inl (NetworkError (str ''Failed to fetch''))"
  by (simp add: example_env_def sendMessage_def request_def offline_def)

lemma example_env_accepts:
  "\<exists>items. saveChatHistory (fits (example_env flag net)) saved session = Inr (Item items)"
  by (simp add: example_env_def saveChatHistory_def setItem_def Let_def)

theorem index_update_on_success_witness:
  "trim (str ''Hello'') \<noteq> [] \<and>
   sid (currentSession example_state) \<notin> sid ` set (sessions example_state) \<and>
   sessions (handleSend (example_env False online) example_state (str ''Hello'') None None) =
     [currentSession (handleSend (example_env False online) example_state (str ''Hello'')
        None None)] \<and>
   sid (currentSession indexed_state) \<in> sid ` set (sessions indexed_state) \<and>
   sessions (handleSend (example_env False online) indexed_state (str ''Hello'') None None) =
     [older_session,
      currentSession (handleSend (example_env False online) indexed_state (str ''Hello'')
        None None)]"
proof -
  have guard: "\<not> (trim (str ''Hello'') = [] \<and> \<not> truthy None \<and> \<not> truthy None)"
    using Hello_nonblank by simp
  have absent: "sid (currentSession example_state) \<notin> sid ` set (sessions example_state)"
    by (simp add: example_state_def)
  have present: "sid (currentSession indexed_state) \<in> sid ` set (sessions indexed_state)"
    by (simp add: indexed_state_def example_state_def)
  have other: "sid older_session \<noteq> sid (currentSession indexed_state)"
    by (simp add: indexed_state_def example_state_def example_session_def older_session_def)
  have cur: "sid example_session = sid (currentSession indexed_state)"
    by (simp add: indexed_state_def example_state_def)
  have list: "sessions indexed_state = [older_session, example_session]"
    by (simp add: indexed_state_def)
  obtain items where accepted: "saveChatHistory (fits (example_env False online))
      (localStorage example_state)
      (finalSession (updatedSession (example_env False online) (currentSession example_state)
          (str ''Hello'') None None)
        (assistantMessage (now_reply (example_env False online))
          (date_reply (example_env False online)) (str ''Water the crop at dawn.''))
        (date_final (example_env False online))) = Inr (Item items)"
    using example_env_accepts by blast
  obtain items' where accepted': "saveChatHistory (fits (example_env False online))
      (localStorage indexed_state)
      (finalSession (updatedSession (example_env False online) (currentSession indexed_state)
          (str ''Hello'') None None)
        (assistantMessage (now_reply (example_env False online))
          (date_reply (example_env False online)) (str ''Water the crop at dawn.''))
        (date_final (example_env False online))) = Inr (Item items')"
    using example_env_accepts by blast
  have one: "sessions (handleSend (example_env False online) example_state (str ''Hello'')
        None None) =
     [currentSession (handleSend (example_env False online) example_state (str ''Hello'')
        None None)]"
    using index_update_on_success [OF guard online_ok accepted] absent
    by (simp add: example_state_def)
  have two: "sessions (handleSend (example_env False online) indexed_state (str ''Hello'')
        None None) =
     [older_session,
      currentSession (handleSend (example_env False online) indexed_state (str ''Hello'')
        None None)]"
    using index_update_on_success [OF guard online_ok accepted'] present other cur
    by (simp add: list)
  from Hello_nonblank absent present one two show ?thesis by blast
qed

text \<open>
  An index of two sessions whose second one is the active session: after a successful
  send the first entry is still the other session.
\<close>

theorem index_move_to_front_counterexample:
  "sid (currentSession indexed_state) \<in> sid ` set (sessions indexed_state) \<and>
   snd (sendMessage False online (sessionId indexed_state) (str ''Hello'') En None None) =
     Inr (str ''Water the crop at dawn.'') \<and>
   hd (sessions (handleSend (example_env False online) indexed_state (str ''Hello'') None None))
     = older_session \<and>
   sid older_session \<noteq>
     sid (currentSession (handleSend (example_env False online) indexed_state (str ''Hello'')
       None None))"
proof -
  have guard: "\<not> (trim (str ''Hello'') = [] \<and> \<not> truthy None \<and> \<not> truthy None)"
    using Hello_nonblank by simp
  have present: "sid (currentSession indexed_state) \<in> sid ` set (sessions indexed_state)"
    by (simp add: indexed_state_def example_state_def)
  have other: "sid older_session \<noteq> sid (currentSession indexed_state)"
    by (simp add: indexed_state_def example_state_def example_session_def older_session_def)
  have list: "sessions indexed_state = [older_session, example_session]"
    by (simp add: indexed_state_def)
  have ok: "snd (sendMessage False online (sessionId indexed_state) (str ''Hello'') En None None) =
     Inr (str ''Water the crop at dawn.'')"
    using online_ok [of "sessionId indexed_state"] by (simp add: example_env_def)
  obtain items where accepted: "saveChatHistory (fits (example_env False online))
      (localStorage indexed_state)
      (finalSession (updatedSession (example_env False online) (currentSession indexed_state)
          (str ''Hello'') None None)
        (assistantMessage (now_reply (example_env False online))
          (date_reply (example_env False online)) (str ''Water the crop at dawn.''))
        (date_final (example_env False online))) = Inr (Item items)"
    using example_env_accepts by blast
  have "sessions (handleSend (example_env False online) indexed_state (str ''Hello'') None None) =
      setSessions_updater
        (currentSession (handleSend (example_env False online) indexed_state (str ''Hello'')
           None None)) (sessions indexed_state)"
    using guard online_ok accepted by (rule handleSend_success(1))
  then have "hd (sessions (handleSend (example_env False online) indexed_state (str ''Hello'')
      None None)) = older_session"
    using present other by (simp add: setSessions_updater_cases handleSend_sid list)
  with present ok other show ?thesis by (simp add: handleSend_sid)
qed

text \<open>
  C1.  The code at the failing input: a production build with the network down.  The
  exchange completes with the user message and the notice as the assistant's message,
  yet the stored item and the index are what they were; the same send with the network
  up stores the session and lists it.
\<close>

theorem handleSend_failure_not_persisted:
  "snd (sendMessage False offline (sessionId example_state) (str ''Hello'') En None None) =
     Inl (NetworkError (str ''Failed to fetch'')) \<and>
   map role (messages (currentSession
     (handleSend (example_env False offline) example_state (str ''Hello'') None None))) =
     [User, Assistant] \<and>
   localStorage (handleSend (example_env False offline) example_state (str ''Hello'') None None)
     = NoItem \<and>
   sessions (handleSend (example_env False offline) example_state (str ''Hello'') None None)
     = [] \<and>
   localStorage (handleSend (example_env False online) example_state (str ''Hello'') None None)
     \<noteq> NoItem \<and>
   sessions (handleSend (example_env False online) example_state (str ''Hello'') None None)
     \<noteq> []"
proof -
  have guard: "\<not> (trim (str ''Hello'') = [] \<and> \<not> truthy None \<and> \<not> truthy None)"
    using Hello_nonblank by simp
  have none: "sessions example_state = []"
    by (simp add: example_state_def)
  have fails: "snd (sendMessage False offline (sessionId example_state) (str ''Hello'') En
      None None) = Inl (NetworkError (str ''Failed to fetch''))"
    using offline_fails [of "sessionId example_state"] by (simp add: example_env_def)
  have roles: "map role (messages (currentSession
     (handleSend (example_env False offline) example_state (str ''Hello'') None None))) =
     [User, Assistant]"
    using handleSend_roles [OF guard, of "example_env False offline" example_state]
    by (simp add: example_state_def example_session_def)
  have kept: "localStorage (handleSend (example_env False offline) example_state (str ''Hello'')
        None None) = NoItem"
      "sessions (handleSend (example_env False offline) example_state (str ''Hello'')
        None None) = []"
    using handleSend_failure [OF offline_fails, of example_state] by (simp_all add: example_state_def)
  obtain items where accepted: "saveChatHistory (fits (example_env False online))
      (localStorage example_state)
      (finalSession (updatedSession (example_env False online) (currentSession example_state)
          (str ''Hello'') None None)
        (assistantMessage (now_reply (example_env False online))
          (date_reply (example_env False online)) (str ''Water the crop at dawn.''))
        (date_final (example_env False online))) = Inr (Item items)"
    using example_env_accepts by blast
  have saved: "localStorage (handleSend (example_env False online) example_state (str ''Hello'')
        None None) \<noteq> NoItem"
    using handleSend_success(2) [OF guard online_ok accepted] by simp
  have listed: "sessions (handleSend (example_env False online) example_state (str ''Hello'')
        None None) \<noteq> []"
    using handleSend_success(1) [OF guard online_ok accepted]
    by (simp add: setSessions_updater_cases none)
  from fails roles kept saved listed show ?thesis by blast
qed

section \<open>The date format read back\<close>

text \<open>
  \<open>Date.parse\<close> inverts \<open>toISOString\<close> on every time value a \<open>Date\<close> can
  hold.  The calendar part: the year, month and day that \<open>civil\<close> computes by cycles
  are in range, and \<open>MakeDay\<close>, which counts days by \<open>DayFromYear\<close> and the table
  of months, gives the day number back.
\<close>

lemma div_eqI: "a = b * q + r \<Longrightarrow> 0 \<le> r \<Longrightarrow> r < b \<Longrightarrow> a div b = (q::int)"
  by (simp add: div_pos_pos_trivial)

lemma div_step:
  assumes "0 < (k::int)"
  shows "y div k - (y - 1) div k = (if y mod k = 0 then 1 else 0)"
proof (cases "y mod k = 0")
  case True
  have "y = k * (y div k) + y mod k" by simp
  with True have "y = k * (y div k)" by simp
  then have "y - 1 = k * (y div k - 1) + (k - 1)"
    by (simp add: algebra_simps)
  then have "(y - 1) div k = y div k - 1"
    using assms by (intro div_eqI[where r = "k - 1"]) auto
  with True show ?thesis by simp
next
  case False
  have "0 \<le> y mod k" "y mod k < k" using assms by simp_all
  with False have r: "0 \<le> y mod k - 1" "y mod k - 1 < k" by linarith+
  have "y - 1 = k * (y div k) + (y mod k - 1)" by simp
  then have "(y - 1) div k = y div k"
    using r by (intro div_eqI[where r = "y mod k - 1"]) auto
  with False show ?thesis by simp
qed

lemma shift4: "(y - 1969) div 4 = (y - 1) div 4 - (492::int)"
proof -
  have "(y - 1969) div 4 = ((y - 1) + 4 * (- 492)) div 4" by simp
  also have "\<dots> = (y - 1) div 4 - 492" by simp
  finally show ?thesis .
qed

lemma shift100: "(y - 1901) div 100 = (y - 1) div 100 - (19::int)"
proof -
  have "(y - 1901) div 100 = ((y - 1) + 100 * (- 19)) div 100" by simp
  also have "\<dots> = (y - 1) div 100 - 19" by simp
  finally show ?thesis .
qed

lemma shift400: "(y - 1601) div 400 = (y - 1) div 400 - (4::int)"
proof -
  have "(y - 1601) div 400 = ((y - 1) + 400 * (- 4)) div 400" by simp
  also have "\<dots> = (y - 1) div 400 - 4" by simp
  finally show ?thesis .
qed

lemma DayFromYear_march:
  "DayFromYear y + 59 + (if InLeapYear y then 1 else 0) =
     365 * y + y div 4 - y div 100 + y div 400 - 719468"
proof -
  define a b c where "a = y div 4" and "b = y div 100" and "c = y div 400"
  define a' b' c' where "a' = (y - 1) div 4" and "b' = (y - 1) div 100" and "c' = (y - 1) div 400"
  define p4 p100 p400 where "p4 \<longleftrightarrow> y mod 4 = 0" and "p100 \<longleftrightarrow> y mod 100 = 0"
    and "p400 \<longleftrightarrow> y mod 400 = 0"
  have s4: "a - a' = (if p4 then 1 else 0)"
    unfolding a_def a'_def p4_def by (rule div_step) simp
  have s100: "b - b' = (if p100 then 1 else 0)"
    unfolding b_def b'_def p100_def by (rule div_step) simp
  have s400: "c - c' = (if p400 then 1 else 0)"
    unfolding c_def c'_def p400_def by (rule div_step) simp
  have "(4::int) dvd 100" "(100::int) dvd 400" by simp_all
  then have m1: "p100 \<Longrightarrow> p4" and m2: "p400 \<Longrightarrow> p100"
    unfolding p4_def p100_def p400_def by (meson dvd_trans mod_eq_0_iff_dvd)+
  have day: "DayFromYear y = 365 * (y - 1970) + (a' - 492) - (b' - 19) + (c' - 4)"
    unfolding DayFromYear_def shift4 shift100 shift400 a'_def b'_def c'_def by (rule refl)
  have leap: "InLeapYear y \<longleftrightarrow> p4 \<and> (\<not> p100 \<or> p400)"
    unfolding InLeapYear_def p4_def p100_def p400_def by (rule refl)
  have "365 * (y - 1970) + (a' - 492) - (b' - 19) + (c' - 4) + 59 +
      (if p4 \<and> (\<not> p100 \<or> p400) then 1 else 0) = 365 * y + a - b + c - 719468"
    using s4 s100 s400 m1 m2 by (cases p4; cases p100; cases p400) simp_all
  then show ?thesis
    unfolding day leap a_def b_def c_def .
qed

lemma DayFromYear_next:
  "DayFromYear (y + 1) = 365 * y + y div 4 - y div 100 + y div 400 - 719162"
proof -
  have a: "(y - 1968) div 4 = y div 4 - 492"
  proof -
    have "(y - 1968) div 4 = (y + 4 * (- 492)) div 4" by simp
    also have "\<dots> = y div 4 - 492" by simp
    finally show ?thesis .
  qed
  have b: "(y - 1900) div 100 = y div 100 - 19"
  proof -
    have "(y - 1900) div 100 = (y + 100 * (- 19)) div 100" by simp
    also have "\<dots> = y div 100 - 19" by simp
    finally show ?thesis .
  qed
  have c: "(y - 1600) div 400 = y div 400 - 4"
  proof -
    have "(y - 1600) div 400 = (y + 400 * (- 4)) div 400" by simp
    also have "\<dots> = y div 400 - 4" by simp
    finally show ?thesis .
  qed
  have "DayFromYear (y + 1) =
      365 * (y - 1969) + (y - 1968) div 4 - (y - 1900) div 100 + (y - 1600) div 400"
    by (simp add: DayFromYear_def)
  then show ?thesis
    unfolding a b c by simp
qed

lemma civil_fields:
  assumes "civil d = (y, m, dt)"
  shows "1 \<le> m \<and> m \<le> 12 \<and> 1 \<le> dt \<and> dt \<le> 31 \<and> MakeDay y (m - 1) dt = d"
proof -
  define z where "z = d + 719468"
  define n400 where "n400 = z div 146097"
  define r where "r = z mod 146097"
  define n100 where "n100 = min 3 (r div 36524)"
  define r1 where "r1 = r - 36524 * n100"
  define n4 where "n4 = r1 div 1461"
  define r2 where "r2 = r1 mod 1461"
  define n1 where "n1 = min 3 (r2 div 365)"
  define doy where "doy = r2 - 365 * n1"
  define y' where "y' = 400 * n400 + 100 * n100 + 4 * n4 + n1"
  define mp where "mp = (5 * doy + 2) div 153"
  define dom where "dom = doy - (153 * mp + 2) div 5 + 1"
  define mon where "mon = (if mp < 10 then mp + 3 else mp - 9)"
  have "civil d = (if mon \<le> 2 then y' + 1 else y', mon, dom)"
    unfolding civil_def Let_def mon_def dom_def mp_def y'_def doy_def n1_def r2_def n4_def r1_def
      n100_def r_def n400_def z_def
    by (rule refl)
  with assms have fields: "y = (if mon \<le> 2 then y' + 1 else y')" "m = mon" "dt = dom"
    by (auto split: if_splits)
  have r: "0 \<le> r" "r < 146097" by (simp_all add: r_def)
  have z: "z = 146097 * n400 + r" by (simp add: n400_def r_def)
  have n100: "0 \<le> n100" "n100 \<le> 3"
    using r by (simp_all add: n100_def)
  have r1: "0 \<le> r1" "r1 \<le> 36524"
    using r unfolding r1_def n100_def by arith+
  have n4: "0 \<le> n4" "n4 \<le> 24"
    using r1 unfolding n4_def by arith+
  have r2: "0 \<le> r2" "r2 < 1461" by (simp_all add: r2_def)
  have r1': "r1 = 1461 * n4 + r2" by (simp add: n4_def r2_def)
  have n1: "0 \<le> n1" "n1 \<le> 3"
    using r2 by (simp_all add: n1_def)
  have doy: "0 \<le> doy" "doy \<le> 365"
    using r2 unfolding doy_def n1_def by arith+
  have y4: "y' div 4 = 100 * n400 + 25 * n100 + n4"
    using n1 by (intro div_eqI[where r = n1]) (simp_all add: y'_def)
  have y100: "y' div 100 = 4 * n400 + n100"
    using n1 n4 by (intro div_eqI[where r = "4 * n4 + n1"]) (simp_all add: y'_def)
  have y400: "y' div 400 = n400"
    using n1 n4 n100 by (intro div_eqI[where r = "100 * n100 + 4 * n4 + n1"]) (simp_all add: y'_def)
  have split: "r = r1 + 36524 * n100" "r2 = doy + 365 * n1"
    by (simp_all add: r1_def doy_def)
  have "365 * y' + (100 * n400 + 25 * n100 + n4) - (4 * n400 + n100) + n400 = z - doy"
    using z split r1' by (simp add: y'_def)
  then have march: "365 * y' + y' div 4 - y' div 100 + y' div 400 = z - doy"
    unfolding y4 y100 y400 .
  have mp: "0 \<le> mp" "mp \<le> 11"
    using doy unfolding mp_def by arith+
  have dom: "1 \<le> dom" "dom \<le> 31"
    using doy unfolding dom_def mp_def by arith+
  have table: "[0, 31, 59, 90, 120, 151, 181, 212, 243, 273, 304, 334] ! nat (mon - 1) =
      (if mp < 10 then 59 + (153 * mp + 2) div 5 else (153 * mp + 2) div 5 - 306)"
  proof -
    from mp have "mp = 0 \<or> mp = 1 \<or> mp = 2 \<or> mp = 3 \<or> mp = 4 \<or> mp = 5 \<or> mp = 6
        \<or> mp = 7 \<or> mp = 8 \<or> mp = 9 \<or> mp = 10 \<or> mp = 11"
      by arith
    then show ?thesis
      by (elim disjE) (simp_all add: mon_def)
  qed
  have late: "mp < 10 \<Longrightarrow> 2 \<le> mon - 1 \<and> \<not> mon \<le> 2"
    and early: "\<not> mp < 10 \<Longrightarrow> \<not> 2 \<le> mon - 1 \<and> mon \<le> 2"
    using mp by (simp_all add: mon_def)
  have "MakeDay y (m - 1) dt = d"
  proof (cases "mp < 10")
    case True
    with late fields have "MakeDay y (m - 1) dt =
        DayFromYear y' + 59 + (if InLeapYear y' then 1 else 0) + (153 * mp + 2) div 5 + dom - 1"
      by (simp add: MakeDay_def daysBeforeMonth_def table)
    also have "\<dots> = z - doy - 719468 + (153 * mp + 2) div 5 + dom - 1"
      unfolding DayFromYear_march march by simp
    also have "\<dots> = d"
      by (simp add: dom_def z_def)
    finally show ?thesis .
  next
    case False
    with early fields have "MakeDay y (m - 1) dt =
        DayFromYear (y' + 1) + ((153 * mp + 2) div 5 - 306) + dom - 1"
      by (simp add: MakeDay_def daysBeforeMonth_def table)
    also have "\<dots> = z - doy - 719162 + ((153 * mp + 2) div 5 - 306) + dom - 1"
      unfolding DayFromYear_next march by simp
    also have "\<dots> = d"
      by (simp add: dom_def z_def)
    finally show ?thesis .
  qed
  moreover have "1 \<le> mon" "mon \<le> 12"
    using mp by (simp_all add: mon_def)
  ultimately show ?thesis
    using dom fields by simp
qed

lemma civil_year_bound:
  assumes "- 100000000 \<le> d" "d \<le> 100000000"
  shows "- 999999 \<le> fst (civil d) \<and> fst (civil d) \<le> 999999"
proof -
  define z where "z = d + 719468"
  define n400 where "n400 = z div 146097"
  define r where "r = z mod 146097"
  define n100 where "n100 = min 3 (r div 36524)"
  define r1 where "r1 = r - 36524 * n100"
  define n4 where "n4 = r1 div 1461"
  define r2 where "r2 = r1 mod 1461"
  define n1 where "n1 = min 3 (r2 div 365)"
  define doy where "doy = r2 - 365 * n1"
  define y' where "y' = 400 * n400 + 100 * n100 + 4 * n4 + n1"
  define mp where "mp = (5 * doy + 2) div 153"
  define dom where "dom = doy - (153 * mp + 2) div 5 + 1"
  define mon where "mon = (if mp < 10 then mp + 3 else mp - 9)"
  have "civil d = (if mon \<le> 2 then y' + 1 else y', mon, dom)"
    unfolding civil_def Let_def mon_def dom_def mp_def y'_def doy_def n1_def r2_def n4_def r1_def
      n100_def r_def n400_def z_def
    by (rule refl)
  then have year: "fst (civil d) = y' \<or> fst (civil d) = y' + 1"
    by simp
  have r: "0 \<le> r" "r < 146097" by (simp_all add: r_def)
  have zb: "- 99280532 \<le> z" "z \<le> 100719468"
    using assms by (simp_all add: z_def)
  have "z div 146097 \<le> 100719468 div 146097"
    using zb by (intro zdiv_mono1) simp_all
  moreover have "(- 99280532) div 146097 \<le> z div 146097"
    using zb by (intro zdiv_mono1) simp_all
  ultimately have n400: "- 1000 \<le> n400" "n400 \<le> 1000"
    by (simp_all add: n400_def)
  have n100: "0 \<le> n100" "n100 \<le> 3"
    using r by (simp_all add: n100_def)
  have r1: "0 \<le> r1" "r1 \<le> 36524"
    using r unfolding r1_def n100_def by arith+
  have n4: "0 \<le> n4" "n4 \<le> 24"
    using r1 unfolding n4_def by arith+
  have r2: "0 \<le> r2" "r2 < 1461" by (simp_all add: r2_def)
  have n1: "0 \<le> n1" "n1 \<le> 3"
    using r2 by (simp_all add: n1_def)
  have "- 400000 \<le> y'" "y' \<le> 400399"
    using n400 n100 n4 n1 by (simp_all add: y'_def)
  with year show ?thesis by auto
qed

lemma time_fields:
  "0 \<le> HourFromTime tv \<and> HourFromTime tv \<le> 23 \<and> 0 \<le> MinFromTime tv \<and> MinFromTime tv \<le> 59 \<and>
   0 \<le> SecFromTime tv \<and> SecFromTime tv \<le> 59 \<and> 0 \<le> msFromTime tv \<and> msFromTime tv \<le> 999 \<and>
   MakeDate (Day tv)
     (MakeTime (HourFromTime tv) (MinFromTime tv) (SecFromTime tv) (msFromTime tv)) = tv"
proof -
  define w where "w = TimeWithinDay tv"
  define q1 where "q1 = w div 1000"
  define ms where "ms = w mod 1000"
  define q2 where "q2 = q1 div 60"
  define ss where "ss = q1 mod 60"
  define hh where "hh = q2 div 60"
  define mm where "mm = q2 mod 60"
  have w: "0 \<le> w" "w < 86400000"
    by (simp_all add: w_def TimeWithinDay_def msPerDay_def)
  have q2: "q2 = w div 60000"
    by (simp add: q2_def q1_def div_mult2_eq [symmetric])
  have hh': "hh = w div 3600000"
    by (simp add: hh_def q2 div_mult2_eq [symmetric])
  have fields: "HourFromTime tv = hh" "MinFromTime tv = mm" "SecFromTime tv = ss"
      "msFromTime tv = ms"
    by (simp_all add: HourFromTime_def MinFromTime_def SecFromTime_def msFromTime_def
        w_def [symmetric] hh' mm_def q2 ss_def q1_def ms_def)
  have "w div 3600000 \<le> 86399999 div 3600000"
    using w by (intro zdiv_mono1) simp_all
  then have hb: "0 \<le> hh" "hh \<le> 23"
    using w by (simp_all add: hh')
  have mb: "0 \<le> mm" "mm \<le> 59"
    using pos_mod_bound [of 60 q2] by (simp_all add: mm_def)
  have sb: "0 \<le> ss" "ss \<le> 59"
    using pos_mod_bound [of 60 q1] by (simp_all add: ss_def)
  have msb: "0 \<le> ms" "ms \<le> 999"
    using pos_mod_bound [of 1000 w] by (simp_all add: ms_def)
  have a: "w = q1 * 1000 + ms" by (simp add: q1_def ms_def)
  have b: "q1 = q2 * 60 + ss" by (simp add: q2_def ss_def)
  have c: "q2 = hh * 60 + mm" by (simp add: hh_def mm_def)
  have parts: "hh * 3600000 + mm * 60000 + ss * 1000 + ms = w"
    unfolding a b c by simp
  have "MakeDate (Day tv) w = tv"
    by (simp add: MakeDate_def Day_def w_def TimeWithinDay_def)
  with hb mb sb msb parts show ?thesis
    unfolding fields MakeTime_def by simp
qed

lemma Day_bound:
  "\<bar>tv\<bar> \<le> maxTime \<Longrightarrow> - 100000000 \<le> Day tv \<and> Day tv \<le> 100000000"
  unfolding maxTime_def Day_def msPerDay_def by arith

lemma unat_digit: "unat (digit n) = 48 + n mod 10"
proof -
  have "digit n = of_nat (48 + n mod 10)" by (simp add: digit.simps)
  then have "unat (digit n) = (48 + n mod 10) mod 2 ^ 16"
    by (simp only: unat_of_nat len_of_numeral_defs) simp
  moreover have "48 + n mod 10 < (2::nat) ^ 16"
    using mod_less_divisor [of 10 n] by simp
  ultimately show ?thesis by simp
qed

lemma isDigit_digit: "isDigit (digit n)"
  unfolding isDigit_def word_le_nat_alt unat_digit by simp

lemma digit_value: "unat (digit n - 0x30) = n mod 10"
proof -
  have "digit n - 0x30 = of_nat (n mod 10)" by (simp add: digit.simps)
  then have "unat (digit n - 0x30) = (n mod 10) mod 2 ^ 16"
    by (simp only: unat_of_nat len_of_numeral_defs) simp
  moreover have "n mod 10 < (2::nat) ^ 16"
    using mod_less_divisor [of 10 n] by simp
  ultimately show ?thesis by simp
qed

lemma isDigit_not_sign: "isDigit c \<Longrightarrow> c \<noteq> 0x2B \<and> c \<noteq> 0x2D"
  by (auto simp: isDigit_def)

lemma length_padStart [simp]: "length (padStart k n) = k"
  by (induction k arbitrary: n) simp_all

lemma isDigit_padStart: "list_all isDigit (padStart k n)"
  by (induction k arbitrary: n) (simp_all add: isDigit_digit)

lemma digitsValue_snoc: "digitsValue (s @ [c]) = 10 * digitsValue s + unat (c - 0x30)"
  by (simp add: digitsValue_def)

lemma digitsValue_padStart: "digitsValue (padStart k n) = n mod 10 ^ k"
proof (induction k arbitrary: n)
  case 0
  then show ?case by (simp add: digitsValue_def)
next
  case (Suc k)
  have "digitsValue (padStart (Suc k) n) = 10 * (n div 10 mod 10 ^ k) + n mod 10"
    by (simp add: digitsValue_snoc Suc digit_value)
  also have "\<dots> = n mod (10 * 10 ^ k)"
    by (simp add: mod_mult2_eq)
  finally show ?case by simp
qed

lemma takeNumber_padStart:
  "n < 10 ^ k \<Longrightarrow> takeNumber k (padStart k n @ rest) = Some (n, rest)"
  by (simp add: takeNumber_def isDigit_padStart digitsValue_padStart)

lemma expect_Cons [simp]: "expect c (c # rest) = Some rest"
  by simp

lemma takeYear_yearString:
  assumes "- 999999 \<le> y" "y \<le> 999999"
  shows "takeYear (yearString y @ rest) = Some (y, rest)"
proof -
  consider "0 \<le> y \<and> y \<le> 9999" | "y < 0" | "9999 < y" by linarith
  then show ?thesis
  proof cases
    case 1
    then have small: "nat y < 10 ^ 4" by auto
    obtain c cs where split: "padStart 4 (nat y) = c # cs"
      using length_padStart [of 4 "nat y"] by (cases "padStart 4 (nat y)") simp_all
    have "isDigit c"
      using isDigit_padStart [of 4 "nat y"] by (simp add: split)
    then have sign: "c \<noteq> 0x2B" "c \<noteq> 0x2D"
      using isDigit_not_sign by blast+
    have "takeYear (yearString y @ rest) = takeYear (c # cs @ rest)"
      using 1 by (simp add: yearString_def split)
    also have "\<dots> = map_option (\<lambda>(n, r). (int n, r)) (takeNumber 4 (c # cs @ rest))"
      using sign by (simp add: takeYear_def)
    also have "c # cs @ rest = padStart 4 (nat y) @ rest"
      by (simp add: split)
    also have "map_option (\<lambda>(n, r). (int n, r)) (takeNumber 4 (padStart 4 (nat y) @ rest)) =
        Some (y, rest)"
      using 1 by (simp add: takeNumber_padStart [OF small])
    finally show ?thesis .
  next
    case 2
    define n where "n = nat \<bar>y\<bar>"
    from 2 assms have n: "n < 10 ^ 6" "n \<noteq> 0" "- int n = y"
      unfolding n_def by auto
    have "yearString y = 0x2D # padStart 6 n"
      using 2 by (simp add: yearString_def n_def)
    then have "takeYear (yearString y @ rest) =
        (case takeNumber 6 (padStart 6 n @ rest) of
           None \<Rightarrow> None
         | Some (k, r) \<Rightarrow> if k = 0 then None else Some (- int k, r))"
      by (simp add: takeYear_def)
    also have "\<dots> = Some (y, rest)"
      by (simp add: takeNumber_padStart [OF n(1)] n(2,3))
    finally show ?thesis .
  next
    case 3
    define n where "n = nat \<bar>y\<bar>"
    from 3 assms have n: "n < 10 ^ 6" "int n = y"
      unfolding n_def by auto
    have "yearString y = 0x2B # padStart 6 n"
      using 3 by (simp add: yearString_def n_def)
    then have "takeYear (yearString y @ rest) =
        map_option (\<lambda>(k, r). (int k, r)) (takeNumber 6 (padStart 6 n @ rest))"
      by (simp add: takeYear_def)
    also have "\<dots> = Some (y, rest)"
      by (simp add: takeNumber_padStart [OF n(1)] n(2))
    finally show ?thesis .
  qed
qed

lemma Date_parse_toISOString:
  assumes "\<bar>tv\<bar> \<le> maxTime"
  shows "Date_parse (toISOString tv) = Some tv"
proof -
  obtain y m dt where civ: "civil (Day tv) = (y, m, dt)"
    by (cases "civil (Day tv)") auto
  from civil_fields [OF civ]
  have m: "1 \<le> m" "m \<le> 12" and dt: "1 \<le> dt" "dt \<le> 31" and day: "MakeDay y (m - 1) dt = Day tv"
    by simp_all
  from Day_bound [OF assms] civil_year_bound [of "Day tv"] civ
  have y: "- 999999 \<le> y" "y \<le> 999999" by simp_all
  define mo where "mo = nat m"
  define dd where "dd = nat dt"
  define hh where "hh = nat (HourFromTime tv)"
  define mi where "mi = nat (MinFromTime tv)"
  define ss where "ss = nat (SecFromTime tv)"
  define ms where "ms = nat (msFromTime tv)"
  from time_fields [of tv]
  have tf: "int hh = HourFromTime tv" "int mi = MinFromTime tv" "int ss = SecFromTime tv"
      "int ms = msFromTime tv" "hh \<le> 23" "mi \<le> 59" "ss \<le> 59" "ms \<le> 999"
    unfolding hh_def mi_def ss_def ms_def by auto
  from time_fields [of tv]
  have date: "MakeDate (Day tv) (MakeTime (int hh) (int mi) (int ss) (int ms)) = tv"
    unfolding tf by simp
  have md: "int mo = m" "int dd = dt" "1 \<le> mo" "mo \<le> 12" "1 \<le> dd" "dd \<le> 31"
    using m dt unfolding mo_def dd_def by auto
  have small: "mo < 10 ^ 2" "dd < 10 ^ 2" "hh < 10 ^ 2" "mi < 10 ^ 2" "ss < 10 ^ 2" "ms < 10 ^ 3"
    using md tf by simp_all
  have iso: "toISOString tv =
      yearString y @ 0x2D # padStart 2 mo @ 0x2D # padStart 2 dd @ 0x54 # padStart 2 hh @
      0x3A # padStart 2 mi @ 0x3A # padStart 2 ss @ 0x2E # padStart 3 ms @ [0x5A]"
    using m by (simp add: toISOString_def YearFromTime_def MonthFromTime_def DateFromTime_def civ
        mo_def dd_def hh_def mi_def ss_def ms_def)
  have clip: "TimeClip tv = Some tv"
    using assms by (simp add: TimeClip_def)
  have "Date_parse (toISOString tv) =
      TimeClip (MakeDate (MakeDay y (int mo - 1) (int dd))
        (MakeTime (int hh) (int mi) (int ss) (int ms)))"
    unfolding iso Date_parse_def
    using md(3-6) tf(5-8)
    by (simp add: takeYear_yearString [OF y] takeNumber_padStart [OF small(1)]
        takeNumber_padStart [OF small(2)] takeNumber_padStart [OF small(3)]
        takeNumber_padStart [OF small(4)] takeNumber_padStart [OF small(5)]
        takeNumber_padStart [OF small(6)])
  also have "\<dots> = Some tv"
    unfolding md(1,2) day date by (rule clip)
  finally show ?thesis .
qed

lemma new_Date_toJSON: "\<bar>tv\<bar> \<le> maxTime \<Longrightarrow> new_Date (toJSON (Date tv)) = Date tv"
  by (simp add: Date_parse_toISOString)

section \<open>The stored collection\<close>

lemma findIndex_absent: "\<forall>x\<in>set xs. \<not> P x \<Longrightarrow> findIndex P xs = - 1"
  by (induction xs) simp_all

lemma findIndex_present:
  "\<exists>x\<in>set xs. P x \<Longrightarrow>
     0 \<le> findIndex P xs \<and> nat (findIndex P xs) < length xs \<and> P (xs ! nat (findIndex P xs)) \<and>
     (\<forall>j < nat (findIndex P xs). \<not> P (xs ! j))"
proof (induction xs)
  case Nil
  then show ?case by simp
next
  case (Cons x xs)
  show ?case
  proof (cases "P x")
    case True
    then show ?thesis by simp
  next
    case False
    with Cons.prems have "\<exists>x\<in>set xs. P x" by simp
    from Cons.IH [OF this] obtain i where i: "findIndex P xs = int i" "i < length xs"
        "P (xs ! i)" "\<forall>j<i. \<not> P (xs ! j)"
      by (metis nat_int zero_le_imp_eq_int)
    have found: "findIndex P (x # xs) = int (Suc i)"
      using False i(1) by (simp add: Let_def)
    have before: "\<forall>j<Suc i. \<not> P ((x # xs) ! j)"
      using False i(4) by (auto simp: nth_Cons split: nat.split)
    have "0 \<le> int (Suc i) \<and> Suc i < length (x # xs) \<and> P ((x # xs) ! Suc i)"
      using i(2,3) by simp
    with before show ?thesis
      unfolding found nat_int by blast
  qed
qed

lemma getChatHistory_stringify:
  "getChatHistory (Item (JSON_stringify history)) =
     map (\<lambda>s. reviveSession (stringifySession s)) history"
  by (simp add: getChatHistory_def JSON_stringify_def)

lemma sid_revive: "sid (reviveSession (stringifySession s)) = sid s"
  by (simp add: reviveSession_def stringifySession_def)

lemma setItem_accepted: "accepted v \<Longrightarrow> setItem accepted v = Inr (Item v)"
  by (simp add: setItem_def)

lemma setItem_refused: "\<not> accepted v \<Longrightarrow> setItem accepted v = Inl QuotaExceededError"
  by (simp add: setItem_def)

lemma setItem_Inr: "setItem accepted v = Inr stored \<Longrightarrow> stored = Item v \<and> accepted v"
  by (auto simp: setItem_def split: if_splits)

lemma saveChatHistory_present:
  assumes "sid session \<in> sid ` set (getChatHistory saved)" "length (getChatHistory saved) \<le> 50"
  shows "saveChatHistory accepted saved session =
           setItem accepted (JSON_stringify ((getChatHistory saved)
             [nat (findIndex (\<lambda>s. sid s = sid session) (getChatHistory saved)) := session]))"
proof -
  from assms(1) have "\<exists>x\<in>set (getChatHistory saved). sid x = sid session" by auto
  from findIndex_present [of "getChatHistory saved" "\<lambda>s. sid s = sid session", OF this]
  have "0 \<le> findIndex (\<lambda>s. sid s = sid session) (getChatHistory saved)" by simp
  with assms(2) show ?thesis
    by (simp add: saveChatHistory_def Let_def)
qed

lemma saveChatHistory_absent:
  assumes "sid session \<notin> sid ` set (getChatHistory saved)"
  shows "saveChatHistory accepted saved session =
           setItem accepted (JSON_stringify
             (if 50 \<le> length (getChatHistory saved) then tl (getChatHistory saved @ [session])
              else getChatHistory saved @ [session]))"
proof -
  from assms have "\<forall>x\<in>set (getChatHistory saved). \<not> sid x = sid session"
    by (metis imageI)
  from findIndex_absent [of "getChatHistory saved" "\<lambda>s. sid s = sid session", OF this]
  show ?thesis
    by (simp add: saveChatHistory_def Let_def)
qed

text \<open>What a save writes, when the collection is within its bound.\<close>

lemma saveChatHistory_writes:
  assumes "length (getChatHistory saved) \<le> 50"
  shows "\<exists>history. saveChatHistory accepted saved session =
             setItem accepted (JSON_stringify history) \<and>
           session \<in> set history \<and> length history \<le> 50"
proof (cases "sid session \<in> sid ` set (getChatHistory saved)")
  case True
  then have "\<exists>x\<in>set (getChatHistory saved). sid x = sid session" by auto
  from findIndex_present [of "getChatHistory saved" "\<lambda>s. sid s = sid session", OF this]
  have "nat (findIndex (\<lambda>s. sid s = sid session) (getChatHistory saved)) <
      length (getChatHistory saved)" by simp
  then have "session \<in> set ((getChatHistory saved)
      [nat (findIndex (\<lambda>s. sid s = sid session) (getChatHistory saved)) := session])"
    by (rule set_update_memI)
  with saveChatHistory_present [OF True assms] assms show ?thesis
    by (intro exI [of _ "(getChatHistory saved)
      [nat (findIndex (\<lambda>s. sid s = sid session) (getChatHistory saved)) := session]"]) simp
next
  case False
  show ?thesis
  proof (cases "50 \<le> length (getChatHistory saved)")
    case full: True
    then have "getChatHistory saved \<noteq> []" by auto
    then have "tl (getChatHistory saved @ [session]) = tl (getChatHistory saved) @ [session]"
      by simp
    with saveChatHistory_absent [OF False] full assms show ?thesis
      by (intro exI [of _ "tl (getChatHistory saved) @ [session]"]) simp
  next
    case room: False
    with saveChatHistory_absent [OF False] show ?thesis
      by (intro exI [of _ "getChatHistory saved @ [session]"]) simp
  qed
qed

lemma saveChatHistory_holds:
  assumes "length (getChatHistory saved) \<le> 50"
    and "saveChatHistory accepted saved session = Inr stored"
  shows "\<exists>history. stored = Item (JSON_stringify history) \<and>
           session \<in> set history \<and> length history \<le> 50"
proof -
  from saveChatHistory_writes [OF assms(1), of accepted session]
  obtain history where h: "saveChatHistory accepted saved session =
      setItem accepted (JSON_stringify history)" "session \<in> set history" "length history \<le> 50"
    by blast
  from h(1) assms(2) have "setItem accepted (JSON_stringify history) = Inr stored"
    by simp
  then have "stored = Item (JSON_stringify history)"
    by (simp add: setItem_Inr)
  with h(2,3) show ?thesis by blast
qed

lemma saveChatHistory_bounded:
  assumes "length (getChatHistory saved) \<le> 50"
  shows "length (getChatHistory (storeAfter saved (saveChatHistory accepted saved session))) \<le> 50"
proof (cases "saveChatHistory accepted saved session")
  case (Inl e)
  with assms show ?thesis by (simp add: storeAfter_def)
next
  case (Inr stored)
  from saveChatHistory_holds [OF assms Inr] show ?thesis
    by (auto simp: storeAfter_def Inr getChatHistory_stringify)
qed

lemma deleteChatSession_bounded:
  assumes "length (getChatHistory saved) \<le> 50"
  shows "length (getChatHistory (storeAfter saved (deleteChatSession accepted saved key))) \<le> 50"
proof -
  from assms length_filter_le [of "\<lambda>s. sid s \<noteq> key" "getChatHistory saved"]
  have "length (filter (\<lambda>s. sid s \<noteq> key) (getChatHistory saved)) \<le> 50"
    by (rule order_trans [rotated])
  with assms show ?thesis
    by (simp add: deleteChatSession_def setItem_def storeAfter_def getChatHistory_stringify)
qed

lemma perform_bounded:
  "length (getChatHistory saved) \<le> 50 \<Longrightarrow>
     length (getChatHistory (perform accepted saved c)) \<le> 50"
proof (cases c)
  case (Save session)
  assume "length (getChatHistory saved) \<le> 50"
  with Save show ?thesis by (simp add: saveChatHistory_bounded)
next
  case (Delete key)
  assume "length (getChatHistory saved) \<le> 50"
  with Delete show ?thesis by (simp add: deleteChatSession_bounded)
next
  case Clear
  then show ?thesis by (simp add: clearAllHistory_def getChatHistory_def)
qed

lemma foldl_perform_bounded:
  "length (getChatHistory saved) \<le> 50 \<Longrightarrow>
     length (getChatHistory (foldl (perform accepted) saved calls)) \<le> 50"
  by (induction calls arbitrary: saved) (simp_all add: perform_bounded)

text \<open>
  C2 (amended).  For a stored collection of at most 50 sessions, \<open>saveChatHistory\<close>
  writes the upsert by id.  If the id is present, the entry at the first position holding
  that id is replaced and nothing moves.  If it is absent and there is room, the session
  is appended.  If it is absent and the collection holds 50, the session is appended and
  the entry at position 0 is dropped, whatever its \<open>updatedAt\<close>.  A write the store
  accepts makes that collection the item; a write it refuses throws and leaves the item
  as it was.  Either way the item holds at most 50 sessions, and so it does after any
  further sequence of saves, deletions and clearings.
\<close>

theorem saveChatHistory_upsert:
  assumes "length (getChatHistory saved) \<le> 50"
  shows
    "(sid session \<in> sid ` set (getChatHistory saved) \<longrightarrow>
        (\<exists>i < length (getChatHistory saved).
           sid (getChatHistory saved ! i) = sid session \<and>
           (\<forall>j<i. sid (getChatHistory saved ! j) \<noteq> sid session) \<and>
           saveChatHistory accepted saved session =
             setItem accepted (JSON_stringify ((getChatHistory saved)[i := session])))) \<and>
     (sid session \<notin> sid ` set (getChatHistory saved) \<longrightarrow> length (getChatHistory saved) < 50 \<longrightarrow>
        saveChatHistory accepted saved session =
          setItem accepted (JSON_stringify (getChatHistory saved @ [session]))) \<and>
     (sid session \<notin> sid ` set (getChatHistory saved) \<longrightarrow> length (getChatHistory saved) = 50 \<longrightarrow>
        saveChatHistory accepted saved session =
          setItem accepted (JSON_stringify (tl (getChatHistory saved) @ [session]))) \<and>
     (accepted v \<longrightarrow> setItem accepted v = Inr (Item v) \<and> storeAfter saved (Inr (Item v)) = Item v) \<and>
     (\<not> accepted v \<longrightarrow>
        setItem accepted v = Inl QuotaExceededError \<and>
        storeAfter saved (Inl QuotaExceededError) = saved) \<and>
     length (getChatHistory (storeAfter saved (saveChatHistory accepted saved session))) \<le> 50 \<and>
     length (getChatHistory (foldl (perform accepted) saved calls)) \<le> 50"
proof (intro conjI impI)
  assume present: "sid session \<in> sid ` set (getChatHistory saved)"
  then have "\<exists>x\<in>set (getChatHistory saved). sid x = sid session" by auto
  from findIndex_present [of "getChatHistory saved" "\<lambda>s. sid s = sid session", OF this]
    saveChatHistory_present [OF present assms, of accepted]
  show "\<exists>i < length (getChatHistory saved).
           sid (getChatHistory saved ! i) = sid session \<and>
           (\<forall>j<i. sid (getChatHistory saved ! j) \<noteq> sid session) \<and>
           saveChatHistory accepted saved session =
             setItem accepted (JSON_stringify ((getChatHistory saved)[i := session]))"
    by (intro exI [of _ "nat (findIndex (\<lambda>s. sid s = sid session) (getChatHistory saved))"])
      simp
next
  assume "sid session \<notin> sid ` set (getChatHistory saved)" "length (getChatHistory saved) < 50"
  then show "saveChatHistory accepted saved session =
      setItem accepted (JSON_stringify (getChatHistory saved @ [session]))"
    by (simp add: saveChatHistory_absent)
next
  assume absent: "sid session \<notin> sid ` set (getChatHistory saved)"
    and full: "length (getChatHistory saved) = 50"
  from full have "getChatHistory saved \<noteq> []" by auto
  then have "tl (getChatHistory saved @ [session]) = tl (getChatHistory saved) @ [session]"
    by simp
  with absent full show "saveChatHistory accepted saved session =
      setItem accepted (JSON_stringify (tl (getChatHistory saved) @ [session]))"
    by (simp add: saveChatHistory_absent)
next
  assume "accepted v"
  then show "setItem accepted v = Inr (Item v)" by (rule setItem_accepted)
next
  show "storeAfter saved (Inr (Item v)) = Item v" by (simp add: storeAfter_def)
next
  assume "\<not> accepted v"
  then show "setItem accepted v = Inl QuotaExceededError" by (rule setItem_refused)
next
  show "storeAfter saved (Inl QuotaExceededError) = saved" by (simp add: storeAfter_def)
next
  show "length (getChatHistory (storeAfter saved (saveChatHistory accepted saved session))) \<le> 50"
    using assms by (rule saveChatHistory_bounded)
next
  show "length (getChatHistory (foldl (perform accepted) saved calls)) \<le> 50"
    using assms by (rule foldl_perform_bounded)
qed

lemma length_full_history: "length (getChatHistory full_store) = 50"
  by (simp add: full_store_def getChatHistory_stringify full_history_def)

lemma sid_full_history: "sid ` set (getChatHistory full_store) = (\<lambda>n. [of_nat n]) ` {0..<50}"
proof -
  have "map sid (getChatHistory full_store) = map (\<lambda>n. [of_nat n]) [0..<50]"
    by (simp add: full_store_def getChatHistory_stringify full_history_def sid_revive o_def)
  then have "set (map sid (getChatHistory full_store)) = set (map (\<lambda>n. [of_nat n]) [0..<50])"
    by (rule arg_cong)
  then show ?thesis by simp
qed

theorem saveChatHistory_upsert_witness:
  "length (getChatHistory full_store) \<le> 50 \<and>
   sid example_session \<notin> sid ` set (getChatHistory full_store) \<and>
   length (getChatHistory full_store) = 50 \<and>
   saveChatHistory (\<lambda>v. True) full_store example_session =
     Inr (Item (JSON_stringify (tl (getChatHistory full_store) @ [example_session]))) \<and>
   sid (older_session\<lparr>sid := [3]\<rparr>) \<in> sid ` set (getChatHistory full_store) \<and>
   (\<exists>i<length (getChatHistory full_store).
      saveChatHistory (\<lambda>v. True) full_store (older_session\<lparr>sid := [3]\<rparr>) =
        Inr (Item (JSON_stringify
          ((getChatHistory full_store)[i := older_session\<lparr>sid := [3]\<rparr>])))) \<and>
   length (getChatHistory
     (storeAfter full_store (saveChatHistory (\<lambda>v. True) full_store example_session))) \<le> 50 \<and>
   length (getChatHistory
     (foldl (perform (\<lambda>v. True)) NoItem
        [Save example_session, Delete (str ''session_a1''), Save older_session,
         Clear, Save answered_session])) \<le> 50"
proof -
  have bound: "length (getChatHistory full_store) \<le> 50"
    by (simp add: length_full_history)
  have empty: "length (getChatHistory NoItem) \<le> 50"
    by (simp add: getChatHistory_def)
  have absent: "sid example_session \<notin> sid ` set (getChatHistory full_store)"
    unfolding sid_full_history by (auto simp: example_session_def)
  have "(3::16 word) = of_nat 3" by simp
  then have present: "sid (older_session\<lparr>sid := [3]\<rparr>) \<in> sid ` set (getChatHistory full_store)"
    unfolding sid_full_history by (auto simp: image_iff intro!: bexI [of _ 3])
  have always: "setItem (\<lambda>v. True) v = Inr (Item v)" for v
    by (simp add: setItem_def)
  from saveChatHistory_upsert [OF bound, of example_session "\<lambda>v. True"] absent
    length_full_history
  have evict: "saveChatHistory (\<lambda>v. True) full_store example_session =
      Inr (Item (JSON_stringify (tl (getChatHistory full_store) @ [example_session])))"
    and after: "length (getChatHistory
      (storeAfter full_store (saveChatHistory (\<lambda>v. True) full_store example_session))) \<le> 50"
    unfolding always by blast+
  from saveChatHistory_upsert [OF bound, of "older_session\<lparr>sid := [3]\<rparr>" "\<lambda>v. True"] present
  have replace: "\<exists>i<length (getChatHistory full_store).
      saveChatHistory (\<lambda>v. True) full_store (older_session\<lparr>sid := [3]\<rparr>) =
        Inr (Item (JSON_stringify
          ((getChatHistory full_store)[i := older_session\<lparr>sid := [3]\<rparr>])))"
    unfolding always by blast
  from saveChatHistory_upsert [OF empty, of _ "\<lambda>v. True"]
  have calls: "length (getChatHistory
     (foldl (perform (\<lambda>v. True)) NoItem
        [Save example_session, Delete (str ''session_a1''), Save older_session,
         Clear, Save answered_session])) \<le> 50"
    by blast
  from bound absent length_full_history evict present replace after calls
  show ?thesis by blast
qed

lemma pictured_refused:
  "saveChatHistory (within_quota 5242880) NoItem pictured_session = Inl QuotaExceededError"
  by (simp add: saveChatHistory_def getChatHistory_def Let_def setItem_def within_quota_def
      JSON_stringify_def units_Session_def units_Message_def stringifySession_def
      stringifyMessage_def pictured_session_def example_session_def)

text \<open>
  A store with a quota of 5242880 code units and no item yet, and a session whose
  picture alone is larger: the id is new and there is room for one more session, yet
  the save throws and the session is not appended.
\<close>

theorem saveChatHistory_refused_counterexample:
  "sid pictured_session \<notin> sid ` set (getChatHistory NoItem) \<and>
   length (getChatHistory NoItem) < 50 \<and>
   saveChatHistory (within_quota 5242880) NoItem pictured_session = Inl QuotaExceededError \<and>
   getChatHistory
     (storeAfter NoItem (saveChatHistory (within_quota 5242880) NoItem pictured_session)) = []"
  by (simp add: pictured_refused storeAfter_def getChatHistory_def)

section \<open>Saving and loading\<close>

lemma new_Date_toJSON_valid: "validDate d \<Longrightarrow> new_Date (toJSON d) = d"
  by (cases d) (simp_all add: Date_parse_toISOString)

lemma new_Date_toJSON_invalid: "new_Date (toJSON InvalidDate) = Date 0"
  by simp

lemma revive_stringify_message:
  "validDate (timestamp m) \<Longrightarrow> reviveMessage (stringifyMessage m) = m"
  by (simp add: reviveMessage_def stringifyMessage_def new_Date_toJSON_valid)

lemma revive_stringify_session:
  assumes "validSession s"
  shows "reviveSession (stringifySession s) = s"
proof -
  from assms have "\<And>m. m \<in> set (messages s) \<Longrightarrow> reviveMessage (stringifyMessage m) = m"
    by (simp add: validSession_def list_all_iff revive_stringify_message)
  then have "map (\<lambda>m. reviveMessage (stringifyMessage m)) (messages s) = messages s"
    by (rule map_idI)
  with assms show ?thesis
    by (simp add: reviveSession_def stringifySession_def validSession_def new_Date_toJSON_valid
        o_def)
qed

text \<open>
  C4 (amended).  For a session with valid dates, a stored collection of at most 50
  sessions and a save the store accepts, loading after saving gives a list that contains
  the session itself: every field is equal, and \<open>createdAt\<close>, \<open>updatedAt\<close> and each
  \<open>timestamp\<close> are \<open>Date\<close> values with the time value they had, to the millisecond,
  although the stored item holds them as strings.
\<close>

theorem save_load_roundtrip:
  assumes "validSession s" "length (getChatHistory saved) \<le> 50"
    and "saveChatHistory accepted saved s = Inr stored"
  shows "s \<in> set (getChatHistory stored) \<and>
         reviveSession (stringifySession s) = s \<and>
         (\<exists>items. stored = Item items \<and> stringifySession s \<in> set items)"
proof -
  from saveChatHistory_holds [OF assms(2,3)]
  obtain history where h: "stored = Item (JSON_stringify history)" "s \<in> set history"
    by blast
  have same: "reviveSession (stringifySession s) = s"
    using assms(1) by (rule revive_stringify_session)
  have "reviveSession (stringifySession s) \<in>
      set (map (\<lambda>s. reviveSession (stringifySession s)) history)"
    using h(2) by (rule imageI [of s "set history", folded set_map])
  then have "s \<in> set (getChatHistory stored)"
    by (simp only: h(1) getChatHistory_stringify same)
  moreover have "stringifySession s \<in> set (JSON_stringify history)"
    using h(2) by (simp add: JSON_stringify_def)
  ultimately show ?thesis
    using same h(1) by blast
qed

lemma valid_answered: "validSession answered_session"
  by (simp add: validSession_def answered_session_def example_session_def maxTime_def)

lemma valid_pictured: "validSession pictured_session"
  by (simp add: validSession_def pictured_session_def example_session_def maxTime_def)

lemma accepted_everything:
  "\<exists>items. saveChatHistory (\<lambda>v. True) saved session = Inr (Item items)"
  by (simp add: saveChatHistory_def setItem_def Let_def)

theorem save_load_roundtrip_witness:
  "validSession answered_session \<and> length (getChatHistory full_store) \<le> 50 \<and>
   (\<exists>stored. saveChatHistory (\<lambda>v. True) full_store answered_session = Inr stored \<and>
      answered_session \<in> set (getChatHistory stored)) \<and>
   reviveSession (stringifySession answered_session) = answered_session \<and>
   (\<exists>stored. saveChatHistory (\<lambda>v. True) NoItem answered_session = Inr stored \<and>
      answered_session \<in> set (getChatHistory stored)) \<and>
   updatedAt_json (stringifySession answered_session) = Some (toISOString 1730633697101)"
proof -
  have bound: "length (getChatHistory full_store) \<le> 50"
    by (simp add: length_full_history)
  have empty: "length (getChatHistory NoItem) \<le> 50"
    by (simp add: getChatHistory_def)
  have kept: "updatedAt_json (stringifySession answered_session) =
      Some (toISOString 1730633697101)"
    by (simp add: stringifySession_def answered_session_def)
  obtain items where full: "saveChatHistory (\<lambda>v. True) full_store answered_session =
      Inr (Item items)"
    using accepted_everything by blast
  obtain items' where first: "saveChatHistory (\<lambda>v. True) NoItem answered_session =
      Inr (Item items')"
    using accepted_everything by blast
  from save_load_roundtrip [OF valid_answered bound full]
    save_load_roundtrip [OF valid_answered empty first] full first
    valid_answered bound kept
  show ?thesis by blast
qed

text \<open>
  A valid session, an empty store with a quota of 5242880 code units: the save throws,
  and what is loaded afterwards does not contain the session.
\<close>

theorem save_load_refused_counterexample:
  "validSession pictured_session \<and> length (getChatHistory NoItem) \<le> 50 \<and>
   saveChatHistory (within_quota 5242880) NoItem pictured_session = Inl QuotaExceededError \<and>
   pictured_session \<notin>
     set (getChatHistory
       (storeAfter NoItem (saveChatHistory (within_quota 5242880) NoItem pictured_session)))"
  by (simp add: valid_pictured pictured_refused storeAfter_def getChatHistory_def)


end
